theory Spec2Isabelle
  imports Complex_Main
begin

section \<open>The low-pass filter of \<^verbatim>\<open>jog_arm_server.h\<close>\<close>

text \<open>
  \<^verbatim>\<open>class LowPassFilter\<close> keeps a coefficient, the last three raw measurements and the
  last two filtered measurements. In this first model a C++ \<^verbatim>\<open>double\<close> is a real number
  and every operation is exact; the rounding of the machine arithmetic is added in the
  second model below, its overflow in the third. The arrays \<^verbatim>\<open>double[3]\<close> and \<^verbatim>\<open>double[2]\<close> are lists updated by
  index. Isabelle does not accept a name that ends in an underscore, so the members
  \<^verbatim>\<open>filter_coeff_\<close>, \<^verbatim>\<open>prev_msrmts_\<close> and \<^verbatim>\<open>prev_filtered_msrmts_\<close> lose theirs.
\<close>

record LowPassFilter =
  filter_coeff :: real
  prev_msrmts :: "real list"
  prev_filtered_msrmts :: "real list"

text \<open>The array types: three raw slots, two filtered slots.\<close>

definition LowPassFilter_wf :: "LowPassFilter \<Rightarrow> bool" where
  "LowPassFilter_wf s =
     (length (prev_msrmts s) = 3 \<and> length (prev_filtered_msrmts s) = 2)"

text \<open>The constructor: the member initialisers give zero histories.\<close>

definition LowPassFilter :: "real \<Rightarrow> LowPassFilter" where
  "LowPassFilter low_pass_filter_coeff =
     \<lparr>filter_coeff = low_pass_filter_coeff,
      prev_msrmts = [0, 0, 0],
      prev_filtered_msrmts = [0, 0]\<rparr>"

definition LowPassFilter_reset :: "real \<Rightarrow> LowPassFilter \<Rightarrow> LowPassFilter" where
  "LowPassFilter_reset data s =
     (let m0 = (prev_msrmts s)[0 := data];
          m1 = m0[1 := data];
          m2 = m1[2 := data];
          f0 = (prev_filtered_msrmts s)[0 := data];
          f1 = f0[1 := data]
      in s\<lparr>prev_msrmts := m2, prev_filtered_msrmts := f1\<rparr>)"

text \<open>
  \<^verbatim>\<open>filter\<close> returns the new filtered measurement; the model returns it together with
  the updated object. The assignments are in the order of the source.
\<close>

definition LowPassFilter_filter :: "real \<Rightarrow> LowPassFilter \<Rightarrow> real \<times> LowPassFilter" where
  "LowPassFilter_filter new_msrmt s =
     (let c = filter_coeff s;
          m0 = (prev_msrmts s)[2 := prev_msrmts s ! 1];
          m1 = m0[1 := m0 ! 0];
          m = m1[0 := new_msrmt];
          f = prev_filtered_msrmts s;
          new_filtered_msrmt =
            (1 / (1 + c * c + 1.414 * c)) *
            (m ! 2 + 2 * m ! 1 + m ! 0 -
             (c * c - 1.414 * c + 1) * f ! 1 -
             (- 2 * c * c + 2) * f ! 0);
          f0 = f[1 := f ! 0];
          f1 = f0[0 := new_filtered_msrmt]
      in (new_filtered_msrmt, s\<lparr>prev_msrmts := m, prev_filtered_msrmts := f1\<rparr>))"

text \<open>
  A caller feeds the filter one measurement per cycle. \<open>LowPassFilter_filter_seq\<close> is
  that sequence of calls: it returns the filtered values in the order of the calls and
  the object after the last one.
\<close>

fun LowPassFilter_filter_seq :: "LowPassFilter \<Rightarrow> real list \<Rightarrow> real list \<times> LowPassFilter" where
  "LowPassFilter_filter_seq s [] = ([], s)"
| "LowPassFilter_filter_seq s (x # xs) =
     (let r = LowPassFilter_filter x s;
          rs = LowPassFilter_filter_seq (snd r) xs
      in (fst r # fst rs, snd rs))"

section \<open>The filter in double precision\<close>

text \<open>
  A \<^verbatim>\<open>double\<close> is an IEEE 754 binary64 number, and each arithmetic operation of the
  source returns the exact result rounded to the nearest such number, ties to the even
  significand. \<open>round_binary64\<close> is that rounding for a real number in the normal range
  (overflow to infinity, subnormal numbers and NaN are not modelled): \<open>binade\<close> finds the
  exponent \<open>e\<close> with \<open>2 ^ e \<le> x < 2 ^ (e + 1)\<close>, and the significand keeps 53 bits.
\<close>

definition round_half_even :: "real \<Rightarrow> int" where
  "round_half_even x =
     (let f = \<lfloor>x\<rfloor>; d = x - of_int f
      in if d < 1 / 2 then f else if 1 / 2 < d then f + 1 else if even f then f else f + 1)"

fun binade :: "nat \<Rightarrow> real \<Rightarrow> int" where
  "binade 0 x = 0"
| "binade (Suc n) x =
     (if 2 \<le> x then binade n (x / 2) + 1 else if x < 1 then binade n (2 * x) - 1 else 0)"

definition round_binary64 :: "real \<Rightarrow> real" where
  "round_binary64 x =
     (if x = 0 then 0
      else let e = binade 1100 \<bar>x\<bar> - 52
           in sgn x * of_int (round_half_even (\<bar>x\<bar> / 2 powi e)) * 2 powi e)"

text \<open>
  \<^verbatim>\<open>LowPassFilter::filter\<close> again, with the rounding \<open>rnd\<close> applied to the literal
  \<^verbatim>\<open>1.414\<close> and after every operation, in the order in which C++ evaluates the
  expression. With the identity for \<open>rnd\<close> it is the exact model above; with
  \<open>round_binary64\<close> it is the arithmetic of the machine.
\<close>

definition LowPassFilter_filter_rounded ::
  "(real \<Rightarrow> real) \<Rightarrow> real \<Rightarrow> LowPassFilter \<Rightarrow> real \<times> LowPassFilter" where
  "LowPassFilter_filter_rounded rnd new_msrmt s =
     (let c = filter_coeff s;
          m0 = (prev_msrmts s)[2 := prev_msrmts s ! 1];
          m1 = m0[1 := m0 ! 0];
          m = m1[0 := new_msrmt];
          f = prev_filtered_msrmts s;
          new_filtered_msrmt =
            rnd (rnd (1 / rnd (rnd (1 + rnd (c * c)) + rnd (rnd 1.414 * c))) *
            rnd (rnd (rnd (rnd (m ! 2 + rnd (2 * m ! 1)) + m ! 0) -
             rnd (rnd (rnd (rnd (c * c) - rnd (rnd 1.414 * c)) + 1) * f ! 1)) -
             rnd (rnd (rnd (rnd (- 2 * c) * c) + 2) * f ! 0)));
          f0 = f[1 := f ! 0];
          f1 = f0[0 := new_filtered_msrmt]
      in (new_filtered_msrmt, s\<lparr>prev_msrmts := m, prev_filtered_msrmts := f1\<rparr>))"

section \<open>Doubles with overflow\<close>

text \<open>
  The arithmetic of the machine never traps: a result too large for a \<^verbatim>\<open>double\<close> is an
  infinity, and an operation without a value (infinity times zero, infinity minus
  infinity, zero by zero) is NaN (IEEE 754, the default mode of C++). In this third model
  a \<^verbatim>\<open>double\<close> is a finite number, one of the two infinities or NaN, and the operators
  of the source are the IEEE operations: on finite numbers the exact result rounded by
  \<open>round_binary64\<close>, and an infinity from \<open>2 ^ 1024\<close> on. The sign of zero is not
  modelled (a nonzero number divided by zero is the infinity of the sign of the
  dividend), nor is the loss of precision of subnormal numbers.
\<close>

datatype double = Finite real | PInf | NInf | NaN

definition double_of_real :: "real \<Rightarrow> double" where
  "double_of_real x =
     (if 2 ^ 1024 \<le> \<bar>x\<bar> then (if 0 < x then PInf else NInf)
      else let r = round_binary64 x
           in if 2 ^ 1024 \<le> \<bar>r\<bar> then (if 0 < x then PInf else NInf) else Finite r)"

instantiation double :: "{one, plus, uminus, minus, times, inverse}"
begin

definition one_double :: double where
  "one_double = Finite 1"

fun plus_double :: "double \<Rightarrow> double \<Rightarrow> double" where
  "plus_double NaN y = NaN"
| "plus_double x NaN = NaN"
| "plus_double PInf NInf = NaN"
| "plus_double NInf PInf = NaN"
| "plus_double PInf y = PInf"
| "plus_double NInf y = NInf"
| "plus_double x PInf = PInf"
| "plus_double x NInf = NInf"
| "plus_double (Finite a) (Finite b) = double_of_real (a + b)"

fun uminus_double :: "double \<Rightarrow> double" where
  "uminus_double NaN = NaN"
| "uminus_double PInf = NInf"
| "uminus_double NInf = PInf"
| "uminus_double (Finite a) = Finite (- a)"

definition minus_double :: "double \<Rightarrow> double \<Rightarrow> double" where
  "minus_double x y = x + (- y)"

fun times_double :: "double \<Rightarrow> double \<Rightarrow> double" where
  "times_double NaN y = NaN"
| "times_double x NaN = NaN"
| "times_double (Finite a) (Finite b) = double_of_real (a * b)"
| "times_double (Finite a) PInf = (if a = 0 then NaN else if 0 < a then PInf else NInf)"
| "times_double (Finite a) NInf = (if a = 0 then NaN else if 0 < a then NInf else PInf)"
| "times_double PInf (Finite b) = (if b = 0 then NaN else if 0 < b then PInf else NInf)"
| "times_double NInf (Finite b) = (if b = 0 then NaN else if 0 < b then NInf else PInf)"
| "times_double PInf PInf = PInf"
| "times_double NInf NInf = PInf"
| "times_double PInf NInf = NInf"
| "times_double NInf PInf = NInf"

fun divide_double :: "double \<Rightarrow> double \<Rightarrow> double" where
  "divide_double NaN y = NaN"
| "divide_double x NaN = NaN"
| "divide_double (Finite a) (Finite b) =
     (if b = 0 then (if a = 0 then NaN else if 0 < a then PInf else NInf)
      else double_of_real (a / b))"
| "divide_double (Finite a) y = Finite 0"
| "divide_double PInf (Finite b) = (if 0 \<le> b then PInf else NInf)"
| "divide_double NInf (Finite b) = (if 0 \<le> b then NInf else PInf)"
| "divide_double x y = NaN"

definition inverse_double :: "double \<Rightarrow> double" where
  "inverse_double x = divide (Finite 1) x"

instance ..

end

text \<open>
  \<^verbatim>\<open>class LowPassFilter\<close> on these doubles: the same members, constructor, \<^verbatim>\<open>reset\<close> and
  \<^verbatim>\<open>filter\<close>, statement by statement, with the literal \<^verbatim>\<open>1.414\<close> converted to the nearest
  double and the integer literals converted exactly.
\<close>

record LowPassFilter_double =
  filter_coeff_d :: double
  prev_msrmts_d :: "double list"
  prev_filtered_msrmts_d :: "double list"

definition LowPassFilter_double_wf :: "LowPassFilter_double \<Rightarrow> bool" where
  "LowPassFilter_double_wf s =
     (length (prev_msrmts_d s) = 3 \<and> length (prev_filtered_msrmts_d s) = 2)"

definition LowPassFilter_double :: "double \<Rightarrow> LowPassFilter_double" where
  "LowPassFilter_double low_pass_filter_coeff =
     \<lparr>filter_coeff_d = low_pass_filter_coeff,
      prev_msrmts_d = [Finite 0, Finite 0, Finite 0],
      prev_filtered_msrmts_d = [Finite 0, Finite 0]\<rparr>"

definition LowPassFilter_double_reset ::
  "double \<Rightarrow> LowPassFilter_double \<Rightarrow> LowPassFilter_double" where
  "LowPassFilter_double_reset data s =
     (let m0 = (prev_msrmts_d s)[0 := data];
          m1 = m0[1 := data];
          m2 = m1[2 := data];
          f0 = (prev_filtered_msrmts_d s)[0 := data];
          f1 = f0[1 := data]
      in s\<lparr>prev_msrmts_d := m2, prev_filtered_msrmts_d := f1\<rparr>)"

definition LowPassFilter_double_filter ::
  "double \<Rightarrow> LowPassFilter_double \<Rightarrow> double \<times> LowPassFilter_double" where
  "LowPassFilter_double_filter new_msrmt s =
     (let c = filter_coeff_d s;
          m0 = (prev_msrmts_d s)[2 := prev_msrmts_d s ! 1];
          m1 = m0[1 := m0 ! 0];
          m = m1[0 := new_msrmt];
          f = prev_filtered_msrmts_d s;
          new_filtered_msrmt =
            (1 / (1 + c * c + double_of_real 1.414 * c)) *
            (m ! 2 + Finite 2 * m ! 1 + m ! 0 -
             (c * c - double_of_real 1.414 * c + 1) * f ! 1 -
             (Finite (- 2) * c * c + Finite 2) * f ! 0);
          f0 = f[1 := f ! 0];
          f1 = f0[0 := new_filtered_msrmt]
      in (new_filtered_msrmt, s\<lparr>prev_msrmts_d := m, prev_filtered_msrmts_d := f1\<rparr>))"

section \<open>The variables shared between the threads\<close>

text \<open>
  The ROS message types come from outside the repository; only the fields the engine
  reads or writes are kept. A time is a number of seconds, \<^verbatim>\<open>ros::Time(0.)\<close> is 0. The
  mutex next to every field of \<^verbatim>\<open>jog_arm_shared\<close> carries no data and is left out.
\<close>

record TwistStamped =
  twist_stamp :: real
  twist_frame_id :: string
  twist_linear :: "real \<times> real \<times> real"
  twist_angular :: "real \<times> real \<times> real"

record JogJoint =
  jog_stamp :: real
  jog_joint_names :: "string list"
  jog_deltas :: "real list"

record JointState =
  js_name :: "string list"
  js_position :: "real list"
  js_velocity :: "real list"

record JointTrajectoryPoint =
  positions :: "real list"
  velocities :: "real list"
  accelerations :: "real list"
  time_from_start :: real

record JointTrajectory =
  traj_joint_names :: "string list"
  points :: "JointTrajectoryPoint list"

record jog_arm_shared =
  command_deltas :: TwistStamped
  joint_command_deltas :: JogJoint
  joints :: JointState
  collision_velocity_scale :: real
  zero_cartesian_cmd_flag :: bool
  zero_joint_cmd_flag :: bool
  command_is_stale :: bool
  new_traj :: JointTrajectory
  incoming_cmd_stamp :: real
  ok_to_publish :: bool

text \<open>
  The value of a \<^verbatim>\<open>jog_arm_shared\<close> before any thread has touched it: the default member
  initialisers of the struct, and default-constructed (empty) messages.
\<close>

definition jog_arm_shared_init :: jog_arm_shared where
  "jog_arm_shared_init =
     \<lparr>command_deltas =
        \<lparr>twist_stamp = 0, twist_frame_id = [], twist_linear = (0, 0, 0),
         twist_angular = (0, 0, 0)\<rparr>,
      joint_command_deltas = \<lparr>jog_stamp = 0, jog_joint_names = [], jog_deltas = []\<rparr>,
      joints = \<lparr>js_name = [], js_position = [], js_velocity = []\<rparr>,
      collision_velocity_scale = 1,
      zero_cartesian_cmd_flag = True,
      zero_joint_cmd_flag = True,
      command_is_stale = False,
      new_traj = \<lparr>traj_joint_names = [], points = []\<rparr>,
      incoming_cmd_stamp = 0,
      ok_to_publish = False\<rparr>"

section \<open>The jogging engine\<close>

text \<open>
  The header declares the parameters, the members of \<^verbatim>\<open>class JogCalcs\<close> and the signatures
  of its methods; the bodies of the methods and of the two worker threads are not part of
  it. The records below are the declarations of the header (the topic and frame
  names of \<^verbatim>\<open>jog_arm_parameters\<close> and the ROS handles of \<^verbatim>\<open>JogCalcs\<close> are left out); every
  function of this section is modelled from the specification and says so.
\<close>

record jog_arm_parameters =
  linear_scale :: real
  rotational_scale :: real
  joint_scale :: real
  lower_singularity_threshold :: real
  hard_stop_singularity_threshold :: real
  lower_collision_proximity_threshold :: real
  hard_stop_collision_proximity_threshold :: real
  low_pass_filter_coeff :: real
  publish_period :: real
  publish_delay :: real
  incoming_command_timeout :: real
  joint_limit_margin :: real
  collision_check_rate :: real
  gazebo :: bool
  collision_check :: bool
  publish_joint_positions :: bool
  publish_joint_velocities :: bool
  publish_joint_accelerations :: bool

record JogCalcs =
  jt_state :: JointState
  velocity_filters :: "LowPassFilter list"
  position_filters :: "LowPassFilter list"
  parameters :: jog_arm_parameters

text \<open>
  Modelled from the spec: the command of section 3, a tagged variant with a Cartesian
  twist or a set of named joint deltas (the header has the two message types and one
  method for each).
\<close>

datatype VelocityCommand = Cartesian TwistStamped | Joint JogJoint

text \<open>
  Modelled from the spec: what the external robot model and the singular value
  decomposition give the engine in one cycle (section 4.2, steps 2 to 4): the
  pseudoinverse of the Jacobian as a map from a Cartesian velocity to a joint increment,
  the smallest singular value, and whether the commanded motion moves toward the
  singularity. \<^verbatim>\<open>pseudoInverse\<close> is declared in the header, its body is missing.
\<close>

record Jacobian =
  pseudoInverse_times :: "real list \<Rightarrow> real list"
  smallest_singular_value :: real
  moving_toward_singularity :: bool

text \<open>
  Modelled from the spec: what one cycle of the engine leaves behind. The methods return
  a \<^verbatim>\<open>bool\<close>, publish the warning with \<^verbatim>\<open>publishWarning\<close> (\<open>None\<close>: nothing published) and
  change the object and the shared variables in place.
\<close>

record JogOutput =
  succeeded :: bool
  warning :: "bool option"
  calcs :: JogCalcs
  shared :: jog_arm_shared

subsection \<open>Velocity scaling\<close>

text \<open>
  Modelled from the spec: the invariant of section 3, a scale factor is always clamped to
  the interval from 0 to 1.
\<close>

definition clamp_unit :: "real \<Rightarrow> real" where
  "clamp_unit x = max 0 (min 1 x)"

text \<open>
  Modelled from the spec: the two-threshold policy of sections 4.2 (step 4) and 4.4, whose
  code (in \<^verbatim>\<open>decelerateForSingularity\<close> and in the collision thread) is missing. At or
  below the hard-stop threshold the scale is 0 (section 8 says at or below), between the
  thresholds it goes down continuously, from the lower threshold on there is no scaling. The spec does not say
  which continuous function is used between the thresholds: it is the parameter \<open>ramp\<close>,
  and its value is clamped.
\<close>

definition two_threshold_scale :: "(real \<Rightarrow> real) \<Rightarrow> real \<Rightarrow> real \<Rightarrow> real \<Rightarrow> real" where
  "two_threshold_scale ramp lower hard_stop proximity =
     (if proximity \<le> hard_stop then 0
      else if proximity < lower then clamp_unit (ramp proximity)
      else 1)"

text \<open>
  Modelled from the spec: \<^verbatim>\<open>JogCalcs::decelerateForSingularity\<close>, declared in the header
  without a body. Section 4.2, step 4: the proximity is the smallest singular value; the
  velocity is scaled down between the thresholds if the motion moves toward the
  singularity; at or below the hard-stop threshold the scale is 0.
\<close>

definition decelerateForSingularity ::
  "(real \<Rightarrow> real) \<Rightarrow> jog_arm_parameters \<Rightarrow> Jacobian \<Rightarrow> real" where
  "decelerateForSingularity ramp p jac =
     (if smallest_singular_value jac \<le> hard_stop_singularity_threshold p then 0
      else if moving_toward_singularity jac
      then two_threshold_scale ramp (lower_singularity_threshold p)
             (hard_stop_singularity_threshold p) (smallest_singular_value jac)
      else 1)"

text \<open>
  Modelled from the spec: one cycle of the collision monitor of section 4.4 (the class
  \<^verbatim>\<open>CollisionCheckThread\<close> of the header has a constructor only). It maps the minimum
  distance to a collision, obtained from the external model, through the two-threshold
  policy and writes the result into the shared variables.
\<close>

definition CollisionCheckThread_cycle ::
  "(real \<Rightarrow> real) \<Rightarrow> jog_arm_parameters \<Rightarrow> real \<Rightarrow> jog_arm_shared \<Rightarrow> jog_arm_shared" where
  "CollisionCheckThread_cycle ramp p distance shared_variables =
     shared_variables\<lparr>collision_velocity_scale :=
        two_threshold_scale ramp (lower_collision_proximity_threshold p)
          (hard_stop_collision_proximity_threshold p) distance\<rparr>"

text \<open>
  Modelled from the spec: the ScaleFactor of section 3, which combines the singularity
  scale with the collision scale (section 4.2, step 5: they are multiplied) and is
  clamped. The code is part of the missing \<^verbatim>\<open>applyVelocityScaling\<close>.
\<close>

definition ScaleFactor :: "real \<Rightarrow> real \<Rightarrow> real" where
  "ScaleFactor singularity_scale collision_scale =
     clamp_unit (singularity_scale * collision_scale)"

subsection \<open>From a command to a trajectory\<close>

text \<open>
  Modelled from the spec: \<^verbatim>\<open>JogCalcs::scaleCartesianCommand\<close> (body missing). Section 4.2,
  step 1: the twist is scaled by the linear and the rotational gain.
\<close>

definition scaleCartesianCommand :: "jog_arm_parameters \<Rightarrow> TwistStamped \<Rightarrow> real list" where
  "scaleCartesianCommand p command =
     (case twist_linear command of (lx, ly, lz) \<Rightarrow>
      case twist_angular command of (ax, ay, az) \<Rightarrow>
        [linear_scale p * lx, linear_scale p * ly, linear_scale p * lz,
         rotational_scale p * ax, rotational_scale p * ay, rotational_scale p * az])"

text \<open>
  Modelled from the spec: \<^verbatim>\<open>JogCalcs::scaleJointCommand\<close> (body missing). Section 4.3: the
  delta of each named joint is scaled by the joint gain; the command is sparse, a joint
  it does not name does not move.
\<close>

definition scaleJointCommand :: "jog_arm_parameters \<Rightarrow> JointState \<Rightarrow> JogJoint \<Rightarrow> real list" where
  "scaleJointCommand p js command =
     map (\<lambda>n. case map_of (zip (jog_joint_names command) (jog_deltas command)) n of
                 None \<Rightarrow> 0
               | Some d \<Rightarrow> joint_scale p * d)
         (js_name js)"

text \<open>
  Modelled from the spec: \<^verbatim>\<open>JogCalcs::enforceJointVelocityLimits\<close> (body missing). Section
  4.2, step 6: each component of the increment is clamped by itself, not the whole vector.
  The bounds of joint \<open>i\<close> are the pair \<open>bounds i\<close>, the admissible interval that the
  limits of the external robot model and the configured margin leave for its increment.
\<close>

definition clamp_increment :: "real \<times> real \<Rightarrow> real \<Rightarrow> real" where
  "clamp_increment b v = max (fst b) (min (snd b) v)"

fun clamp_from :: "nat \<Rightarrow> (nat \<Rightarrow> real \<times> real) \<Rightarrow> real list \<Rightarrow> real list" where
  "clamp_from i bounds [] = []"
| "clamp_from i bounds (v # vs) = clamp_increment (bounds i) v # clamp_from (Suc i) bounds vs"

definition enforceJointVelocityLimits :: "(nat \<Rightarrow> real \<times> real) \<Rightarrow> real list \<Rightarrow> real list" where
  "enforceJointVelocityLimits bounds calculated_joint_vel =
     clamp_from 0 bounds calculated_joint_vel"

text \<open>
  Modelled from the spec: \<^verbatim>\<open>lowPassFilterVelocities\<close> and \<^verbatim>\<open>lowPassFilterPositions\<close> (bodies
  missing). Sections 4.1 and 4.2, step 7: one filter per joint, each fed the value of its
  joint with \<^verbatim>\<open>LowPassFilter::filter\<close>.
\<close>

fun filter_each :: "LowPassFilter list \<Rightarrow> real list \<Rightarrow> real list \<times> LowPassFilter list" where
  "filter_each (f # fs) (v # vs) =
     (let r = LowPassFilter_filter v f; rs = filter_each fs vs
      in (fst r # fst rs, snd r # snd rs))"
| "filter_each fs vs = ([], fs)"

text \<open>
  Modelled from the spec: \<^verbatim>\<open>JogCalcs::addJointIncrements\<close> (body missing). Section 4.2,
  step 7: the filtered increments are integrated into the joint positions.
\<close>

definition addJointIncrements :: "real list \<Rightarrow> real list \<Rightarrow> real list" where
  "addJointIncrements position increments = map (\<lambda>(q, d). q + d) (zip position increments)"

text \<open>
  Modelled from the spec: \<^verbatim>\<open>JogCalcs::composeOutgoingMessage\<close> (body missing). Section 4.2,
  step 8: the trajectory has one point with the joint values, one publish period from
  the start. The redundant points that \<^verbatim>\<open>insertRedundantPointsIntoTrajectory\<close> may add
  repeat the same joint values and are left out.
\<close>

definition composeOutgoingMessage :: "jog_arm_parameters \<Rightarrow> JointState \<Rightarrow> JointTrajectory" where
  "composeOutgoingMessage p joint_state =
     \<lparr>traj_joint_names = js_name joint_state,
      points = [\<lparr>positions = js_position joint_state,
                 velocities = js_velocity joint_state,
                 accelerations = [],
                 time_from_start = publish_period p\<rparr>]\<rparr>"

text \<open>
  Modelled from the spec: \<^verbatim>\<open>JogCalcs::halt\<close>, declared in the header without a body.
  Sections 4.2 (step 9) and 4.5: a halt trajectory holds the current, last known joint
  positions, and all its velocities are zero.
\<close>

definition halt :: "JogCalcs \<Rightarrow> JointTrajectory \<Rightarrow> JointTrajectory" where
  "halt calc jt_traj =
     jt_traj\<lparr>points :=
       map (\<lambda>pt. pt\<lparr>positions := js_position (jt_state calc),
                      velocities := map (\<lambda>_. 0) (js_position (jt_state calc))\<rparr>)
           (points jt_traj)\<rparr>"

text \<open>
  Modelled from the spec: \<^verbatim>\<open>JogCalcs::resetVelocityFilters\<close>, declared in the header
  without a body. Section 4.5: the filter history is reset with \<^verbatim>\<open>LowPassFilter::reset\<close>,
  so that the motion does not jump when it resumes. The spec does not give the value:
  here it is that of the halt trajectory, velocity zero.
\<close>

definition resetVelocityFilters :: "JogCalcs \<Rightarrow> JogCalcs" where
  "resetVelocityFilters calc =
     calc\<lparr>velocity_filters := map (LowPassFilter_reset 0) (velocity_filters calc)\<rparr>"

text \<open>
  Modelled from the spec: the reset of the position filters. The header declares no method
  for it; section 4.5 resets the filter history without restricting it to the velocity
  filters, so the stale cycle resets the position filters as well: every one of them,
  each to the held position of its joint (the engine keeps one filter per joint; a
  filter beyond the known positions is reset to 0).
\<close>

fun reset_each :: "real list \<Rightarrow> LowPassFilter list \<Rightarrow> LowPassFilter list" where
  "reset_each qs [] = []"
| "reset_each [] (f # fs) = LowPassFilter_reset 0 f # reset_each [] fs"
| "reset_each (q # qs) (f # fs) = LowPassFilter_reset q f # reset_each qs fs"

definition resetPositionFilters :: "JogCalcs \<Rightarrow> JogCalcs" where
  "resetPositionFilters calc =
     calc\<lparr>position_filters :=
        reset_each (js_position (jt_state calc)) (position_filters calc)\<rparr>"

text \<open>
  Modelled from the spec: the steps that both paths share (section 4.2, steps 6 to 8, and
  section 4.3): clamp the increment against the joint limits, filter the velocities,
  integrate, filter the positions if positions are published, compose the trajectory.
\<close>

definition jog_step ::
  "(nat \<Rightarrow> real \<times> real) \<Rightarrow> real list \<Rightarrow> JogCalcs \<Rightarrow> JogCalcs \<times> JointTrajectory" where
  "jog_step bounds delta_theta calc =
     (let limited = enforceJointVelocityLimits bounds delta_theta;
          fv = filter_each (velocity_filters calc) limited;
          integrated = addJointIncrements (js_position (jt_state calc)) (fst fv);
          fp = (if publish_joint_positions (parameters calc)
                then filter_each (position_filters calc) integrated
                else (integrated, position_filters calc));
          next_state = (jt_state calc)\<lparr>js_position := fst fp, js_velocity := fst fv\<rparr>
      in (calc\<lparr>velocity_filters := snd fv, position_filters := snd fp\<rparr>,
          composeOutgoingMessage (parameters calc) next_state))"

text \<open>
  Modelled from the spec: \<^verbatim>\<open>JogCalcs::cartesianJogCalcs\<close>, declared in the header without
  a body. Section 4.2: scale the twist, apply the pseudoinverse, scale by the singularity
  and the collision scale, then the shared steps; the result is written with the publish
  flag set. If a hard stop has triggered, the halt trajectory is written instead and the
  warning is raised; otherwise the warning is cleared. The hard stops are those of
  section 4.2: the smallest singular value at or below its hard-stop threshold, and the
  collision hard stop, which the engine sees as the collision scale 0 that the monitor
  wrote (section 3: 0 means fully halt).
\<close>

definition cartesianJogCalcs ::
  "(real \<Rightarrow> real) \<Rightarrow> Jacobian \<Rightarrow> (nat \<Rightarrow> real \<times> real) \<Rightarrow> TwistStamped \<Rightarrow> JogCalcs \<Rightarrow>
   jog_arm_shared \<Rightarrow> JogOutput" where
  "cartesianJogCalcs ramp jac bounds cmd calc shared_variables =
     (let target = scaleCartesianCommand (parameters calc) cmd;
          delta_theta = pseudoInverse_times jac target;
          singularity_scale = decelerateForSingularity ramp (parameters calc) jac;
          scale = ScaleFactor singularity_scale (collision_velocity_scale shared_variables);
          r = jog_step bounds (map (\<lambda>d. scale * d) delta_theta) calc
      in if smallest_singular_value jac \<le> hard_stop_singularity_threshold (parameters calc)
            \<or> collision_velocity_scale shared_variables = 0
         then \<lparr>succeeded = True, warning = Some True, calcs = calc,
               shared = shared_variables
                 \<lparr>new_traj :=
                    halt calc (composeOutgoingMessage (parameters calc) (jt_state calc)),
                  ok_to_publish := True\<rparr>\<rparr>
         else \<lparr>succeeded = True, warning = Some False, calcs = fst r,
               shared = shared_variables\<lparr>new_traj := snd r, ok_to_publish := True\<rparr>\<rparr>)"

text \<open>
  Modelled from the spec: \<^verbatim>\<open>JogCalcs::jointJogCalcs\<close>, declared in the header without a
  body. Section 4.3: scale the named deltas by the joint gain, then the shared steps; no
  Jacobian and no scale factor. Section 7 (e): a command with a wrong joint name or a
  dimension mismatch is rejected for the cycle and changes nothing.
\<close>

definition jointJogCalcs ::
  "(nat \<Rightarrow> real \<times> real) \<Rightarrow> JogJoint \<Rightarrow> JogCalcs \<Rightarrow> jog_arm_shared \<Rightarrow> JogOutput" where
  "jointJogCalcs bounds cmd calc shared_variables =
     (if length (jog_joint_names cmd) = length (jog_deltas cmd)
         \<and> list_all (\<lambda>n. n \<in> set (js_name (jt_state calc))) (jog_joint_names cmd)
      then let r = jog_step bounds (scaleJointCommand (parameters calc) (jt_state calc) cmd) calc
           in \<lparr>succeeded = True, warning = None, calcs = fst r,
                shared = shared_variables\<lparr>new_traj := snd r, ok_to_publish := True\<rparr>\<rparr>
      else \<lparr>succeeded = False, warning = None, calcs = calc, shared = shared_variables\<rparr>)"

text \<open>
  Modelled from the spec: one control cycle of the calculation loop (the loop itself is in
  the missing body of \<^verbatim>\<open>JogCalcs\<close>). The command is handled by the path of its variant.
  Section 4.5: if the time since the last command exceeds the timeout, the command is
  stale, and the engine then writes a halt trajectory, regardless of the command just
  computed, and resets the filter history.
\<close>

definition jogCalcs_cycle ::
  "(real \<Rightarrow> real) \<Rightarrow> Jacobian \<Rightarrow> (nat \<Rightarrow> real \<times> real) \<Rightarrow> real \<Rightarrow> VelocityCommand \<Rightarrow>
   JogCalcs \<Rightarrow> jog_arm_shared \<Rightarrow> JogOutput" where
  "jogCalcs_cycle ramp jac bounds now cmd calc shared_variables =
     (let out = (case cmd of
                   Cartesian twist \<Rightarrow>
                     cartesianJogCalcs ramp jac bounds twist calc shared_variables
                 | Joint jog \<Rightarrow> jointJogCalcs bounds jog calc shared_variables)
      in if now - incoming_cmd_stamp shared_variables
              > incoming_command_timeout (parameters calc)
         then out\<lparr>calcs := resetPositionFilters (resetVelocityFilters (calcs out)),
                  shared := (shared out)
                    \<lparr>command_is_stale := True,
                     new_traj :=
                       halt calc (composeOutgoingMessage (parameters calc) (jt_state calc)),
                     ok_to_publish := True\<rparr>\<rparr>
         else out\<lparr>shared := (shared out)\<lparr>command_is_stale := False\<rparr>\<rparr>)"

section \<open>A configuration with two joints\<close>

text \<open>Concrete values on which the theorems below are instantiated.\<close>

definition example_parameters :: jog_arm_parameters where
  "example_parameters =
     \<lparr>linear_scale = 0.5, rotational_scale = 0.25, joint_scale = 0.5,
      lower_singularity_threshold = 0.1, hard_stop_singularity_threshold = 0.05,
      lower_collision_proximity_threshold = 0.1, hard_stop_collision_proximity_threshold = 0.05,
      low_pass_filter_coeff = 2, publish_period = 0.01, publish_delay = 0.005,
      incoming_command_timeout = 1, joint_limit_margin = 0.1, collision_check_rate = 5,
      gazebo = False, collision_check = True, publish_joint_positions = True,
      publish_joint_velocities = True, publish_joint_accelerations = False\<rparr>"

definition example_calcs :: JogCalcs where
  "example_calcs =
     \<lparr>jt_state = \<lparr>js_name = [''shoulder'', ''elbow''], js_position = [0.5, - 0.25],
                   js_velocity = [0.1, 0.2]\<rparr>,
      velocity_filters =
        [snd (LowPassFilter_filter_seq (LowPassFilter 2) [1, 2]), LowPassFilter 2],
      position_filters =
        [snd (LowPassFilter_filter_seq (LowPassFilter 2) [0.4, 0.5]), LowPassFilter 2],
      parameters = example_parameters\<rparr>"

definition example_twist :: TwistStamped where
  "example_twist =
     \<lparr>twist_stamp = 0, twist_frame_id = ''base'', twist_linear = (1, 0, 0),
      twist_angular = (0, 0, 1)\<rparr>"

definition example_jacobian :: Jacobian where
  "example_jacobian =
     \<lparr>pseudoInverse_times = (\<lambda>v. [v ! 0 + v ! 5, v ! 1]),
      smallest_singular_value = 0.01,
      moving_toward_singularity = True\<rparr>"

definition example_ramp :: "real \<Rightarrow> real" where
  "example_ramp proximity = (proximity - 0.05) / (0.1 - 0.05)"

section \<open>Properties of the low-pass filter\<close>

subsection \<open>One call on a given state\<close>

lemma LowPassFilter_filter_step:
  "LowPassFilter_filter x
     \<lparr>filter_coeff = c, prev_msrmts = [a0, a1, a2], prev_filtered_msrmts = [b0, b1]\<rparr> =
   (1 / (1 + c * c + 1.414 * c) *
      (a1 + 2 * a0 + x - (c * c - 1.414 * c + 1) * b1 - (- 2 * c * c + 2) * b0),
    \<lparr>filter_coeff = c, prev_msrmts = [x, a0, a1],
     prev_filtered_msrmts =
       [1 / (1 + c * c + 1.414 * c) *
          (a1 + 2 * a0 + x - (c * c - 1.414 * c + 1) * b1 - (- 2 * c * c + 2) * b0),
        b0]\<rparr>)"
  by (simp add: LowPassFilter_filter_def Let_def)

lemma LowPassFilter_reset_step:
  "LowPassFilter_reset v
     \<lparr>filter_coeff = c, prev_msrmts = [a0, a1, a2], prev_filtered_msrmts = [b0, b1]\<rparr> =
   \<lparr>filter_coeff = c, prev_msrmts = [v, v, v], prev_filtered_msrmts = [v, v]\<rparr>"
  by (simp add: LowPassFilter_reset_def Let_def)

lemma filter_divisor_pos: "0 < 1 + c * c + 1.414 * (c::real)"
proof -
  have "1 + c * c + 1.414 * c = (c + 0.707)\<^sup>2 + (1 - 0.707\<^sup>2)"
    by (simp add: power2_eq_square algebra_simps)
  moreover have "0 \<le> (c + 0.707)\<^sup>2"
    by simp
  moreover have "(0::real) < 1 - 0.707\<^sup>2"
    by (simp add: power2_eq_square)
  ultimately show ?thesis
    by linarith
qed

lemma filter_rounded_exact: "LowPassFilter_filter_rounded (\<lambda>x. x) = LowPassFilter_filter"
  by (simp add: fun_eq_iff LowPassFilter_filter_rounded_def LowPassFilter_filter_def)

subsection \<open>A sequence of calls\<close>

lemma filter_seq_nth0:
  "fst (LowPassFilter_filter_seq
      \<lparr>filter_coeff = c, prev_msrmts = [a0, a1, a2], prev_filtered_msrmts = [b0, b1]\<rparr>
      (x # xs)) ! 0 =
    1 / (1 + c * c + 1.414 * c) *
      (x + 2 * a0 + a1 - (c * c - 1.414 * c + 1) * b1 - (- 2 * c * c + 2) * b0)"
  by (simp add: LowPassFilter_filter_step Let_def)

lemma filter_seq_nth1:
  "fst (LowPassFilter_filter_seq
      \<lparr>filter_coeff = c, prev_msrmts = [a0, a1, a2], prev_filtered_msrmts = [b0, b1]\<rparr>
      (x # x' # xs)) ! 1 =
    1 / (1 + c * c + 1.414 * c) *
      (x' + 2 * x + a0 - (c * c - 1.414 * c + 1) * b0 - (- 2 * c * c + 2) *
        fst (LowPassFilter_filter_seq
          \<lparr>filter_coeff = c, prev_msrmts = [a0, a1, a2], prev_filtered_msrmts = [b0, b1]\<rparr>
          (x # x' # xs)) ! 0)"
  by (simp add: LowPassFilter_filter_step Let_def)

lemma filter_seq_nth2:
  "fst (LowPassFilter_filter_seq
      \<lparr>filter_coeff = c, prev_msrmts = [a0, a1, a2], prev_filtered_msrmts = [b0, b1]\<rparr>
      (x # x' # x'' # xs)) ! 2 =
    1 / (1 + c * c + 1.414 * c) *
      (x'' + 2 * x' + x - (c * c - 1.414 * c + 1) *
        fst (LowPassFilter_filter_seq
          \<lparr>filter_coeff = c, prev_msrmts = [a0, a1, a2], prev_filtered_msrmts = [b0, b1]\<rparr>
          (x # x' # x'' # xs)) ! 0
       - (- 2 * c * c + 2) *
        fst (LowPassFilter_filter_seq
          \<lparr>filter_coeff = c, prev_msrmts = [a0, a1, a2], prev_filtered_msrmts = [b0, b1]\<rparr>
          (x # x' # x'' # xs)) ! 1)"
  by (simp add: LowPassFilter_filter_step Let_def)

text \<open>
  From the third call on the recurrence reads the inputs and the outputs of the two
  calls before; by induction on the inputs, the state generalised.
\<close>

lemma filter_seq_recurrence:
  "2 \<le> n \<Longrightarrow> n < length xs \<Longrightarrow>
   fst (LowPassFilter_filter_seq
      \<lparr>filter_coeff = c, prev_msrmts = [a0, a1, a2], prev_filtered_msrmts = [b0, b1]\<rparr> xs) ! n =
    1 / (1 + c * c + 1.414 * c) *
      (xs ! n + 2 * xs ! (n - 1) + xs ! (n - 2) - (c * c - 1.414 * c + 1) *
        fst (LowPassFilter_filter_seq
          \<lparr>filter_coeff = c, prev_msrmts = [a0, a1, a2], prev_filtered_msrmts = [b0, b1]\<rparr>
          xs) ! (n - 2)
       - (- 2 * c * c + 2) *
        fst (LowPassFilter_filter_seq
          \<lparr>filter_coeff = c, prev_msrmts = [a0, a1, a2], prev_filtered_msrmts = [b0, b1]\<rparr>
          xs) ! (n - 1))"
proof (induction xs arbitrary: n a0 a1 a2 b0 b1)
  case Nil
  then show ?case by simp
next
  case (Cons x xs)
  show ?case
  proof (cases "n = 2")
    case True
    with Cons.prems obtain x' x'' zs where xs: "xs = x' # x'' # zs"
      by (cases xs; cases "tl xs") auto
    show ?thesis
      unfolding True xs using filter_seq_nth2 [of c a0 a1 a2 b0 b1 x x' x'' zs] by simp
  next
    case False
    with Cons.prems obtain k where n: "n = Suc (Suc (Suc k))"
      by (metis numeral_2_eq_2 le_neq_implies_less less_imp_Suc_add add_Suc)
    from Cons.prems n have m: "2 \<le> Suc (Suc k)" "Suc (Suc k) < length xs"
      by simp_all
    define y where "y = fst (LowPassFilter_filter x
       \<lparr>filter_coeff = c, prev_msrmts = [a0, a1, a2], prev_filtered_msrmts = [b0, b1]\<rparr>)"
    have step: "snd (LowPassFilter_filter x
       \<lparr>filter_coeff = c, prev_msrmts = [a0, a1, a2], prev_filtered_msrmts = [b0, b1]\<rparr>) =
       \<lparr>filter_coeff = c, prev_msrmts = [x, a0, a1], prev_filtered_msrmts = [y, b0]\<rparr>"
      by (simp add: LowPassFilter_filter_step y_def)
    have IH: "fst (LowPassFilter_filter_seq
        \<lparr>filter_coeff = c, prev_msrmts = [x, a0, a1], prev_filtered_msrmts = [y, b0]\<rparr> xs)
          ! Suc (Suc k) =
      1 / (1 + c * c + 1.414 * c) *
      (xs ! Suc (Suc k) + 2 * xs ! (Suc (Suc k) - 1) + xs ! (Suc (Suc k) - 2)
       - (c * c - 1.414 * c + 1) *
        fst (LowPassFilter_filter_seq
          \<lparr>filter_coeff = c, prev_msrmts = [x, a0, a1], prev_filtered_msrmts = [y, b0]\<rparr> xs)
            ! (Suc (Suc k) - 2)
       - (- 2 * c * c + 2) *
        fst (LowPassFilter_filter_seq
          \<lparr>filter_coeff = c, prev_msrmts = [x, a0, a1], prev_filtered_msrmts = [y, b0]\<rparr> xs)
            ! (Suc (Suc k) - 1))"
      by (rule Cons.IH [OF m])
    have ys: "fst (LowPassFilter_filter_seq
        \<lparr>filter_coeff = c, prev_msrmts = [a0, a1, a2], prev_filtered_msrmts = [b0, b1]\<rparr>
        (x # xs)) =
        y # fst (LowPassFilter_filter_seq
        \<lparr>filter_coeff = c, prev_msrmts = [x, a0, a1], prev_filtered_msrmts = [y, b0]\<rparr> xs)"
      by (simp add: Let_def step flip: y_def)
    have idx: "Suc (Suc (Suc k)) - 1 = Suc (Suc k)" "Suc (Suc (Suc k)) - 2 = Suc k"
      "Suc (Suc k) - 1 = Suc k" "Suc (Suc k) - 2 = k"
      by simp_all
    show ?thesis
      unfolding n ys idx nth_Cons_Suc using IH unfolding idx .
  qed
qed

lemma filter_seq_example:
  "fst (LowPassFilter_filter_seq (LowPassFilter 1) [1, 0, 0]) =
     [500 / 1707, 1000 / 1707, 707000 / 2913849]"
  by (simp add: LowPassFilter_def LowPassFilter_filter_step Let_def)

text \<open>
  C1 (as amended). For every coefficient \<open>c\<close>, every state and every sequence of inputs,
  the value that \<^verbatim>\<open>filter\<close> returns is
  \<open>k * (x[n] + 2 x[n-1] + x[n-2] - (c\<^sup>2 - 1.414 c + 1) * y[n-2] - (- 2 c\<^sup>2 + 2) * y[n-1])\<close>
  with \<open>k = 1 / (1 + c\<^sup>2 + 1.414 c)\<close>: the factor \<open>c\<^sup>2 - 1.414 c + 1\<close> multiplies the
  filtered value before the most recently returned one, and \<open>- 2 c\<^sup>2 + 2\<close> multiplies the
  most recently returned one. In the first two calls the slots of the state stand for
  the samples and the filtered values before the sequence.
\<close>

theorem C1_filter_recurrence:
  "(0 < length xs \<longrightarrow>
      fst (LowPassFilter_filter_seq
        \<lparr>filter_coeff = c, prev_msrmts = [a0, a1, a2], prev_filtered_msrmts = [b0, b1]\<rparr>
        xs) ! 0 =
      1 / (1 + c\<^sup>2 + 1.414 * c) *
        (xs ! 0 + 2 * a0 + a1 - (c\<^sup>2 - 1.414 * c + 1) * b1 - (- 2 * c\<^sup>2 + 2) * b0))
   \<and> (1 < length xs \<longrightarrow>
      fst (LowPassFilter_filter_seq
        \<lparr>filter_coeff = c, prev_msrmts = [a0, a1, a2], prev_filtered_msrmts = [b0, b1]\<rparr>
        xs) ! 1 =
      1 / (1 + c\<^sup>2 + 1.414 * c) *
        (xs ! 1 + 2 * xs ! 0 + a0 - (c\<^sup>2 - 1.414 * c + 1) * b0
         - (- 2 * c\<^sup>2 + 2) *
           fst (LowPassFilter_filter_seq
             \<lparr>filter_coeff = c, prev_msrmts = [a0, a1, a2], prev_filtered_msrmts = [b0, b1]\<rparr>
             xs) ! 0))
   \<and> (2 \<le> n \<and> n < length xs \<longrightarrow>
      fst (LowPassFilter_filter_seq
        \<lparr>filter_coeff = c, prev_msrmts = [a0, a1, a2], prev_filtered_msrmts = [b0, b1]\<rparr>
        xs) ! n =
      1 / (1 + c\<^sup>2 + 1.414 * c) *
        (xs ! n + 2 * xs ! (n - 1) + xs ! (n - 2)
         - (c\<^sup>2 - 1.414 * c + 1) *
           fst (LowPassFilter_filter_seq
             \<lparr>filter_coeff = c, prev_msrmts = [a0, a1, a2], prev_filtered_msrmts = [b0, b1]\<rparr>
             xs) ! (n - 2)
         - (- 2 * c\<^sup>2 + 2) *
           fst (LowPassFilter_filter_seq
             \<lparr>filter_coeff = c, prev_msrmts = [a0, a1, a2], prev_filtered_msrmts = [b0, b1]\<rparr>
             xs) ! (n - 1)))"
proof (intro conjI impI)
  assume "0 < length xs"
  then obtain x zs where "xs = x # zs"
    by (cases xs) auto
  then show "fst (LowPassFilter_filter_seq
        \<lparr>filter_coeff = c, prev_msrmts = [a0, a1, a2], prev_filtered_msrmts = [b0, b1]\<rparr>
        xs) ! 0 =
      1 / (1 + c\<^sup>2 + 1.414 * c) *
        (xs ! 0 + 2 * a0 + a1 - (c\<^sup>2 - 1.414 * c + 1) * b1 - (- 2 * c\<^sup>2 + 2) * b0)"
    using filter_seq_nth0 [of c a0 a1 a2 b0 b1 x zs]
    by (simp add: power2_eq_square)
next
  assume "1 < length xs"
  then obtain x x' zs where "xs = x # x' # zs"
    by (cases xs; cases "tl xs") auto
  then show "fst (LowPassFilter_filter_seq
        \<lparr>filter_coeff = c, prev_msrmts = [a0, a1, a2], prev_filtered_msrmts = [b0, b1]\<rparr>
        xs) ! 1 =
      1 / (1 + c\<^sup>2 + 1.414 * c) *
        (xs ! 1 + 2 * xs ! 0 + a0 - (c\<^sup>2 - 1.414 * c + 1) * b0
         - (- 2 * c\<^sup>2 + 2) *
           fst (LowPassFilter_filter_seq
             \<lparr>filter_coeff = c, prev_msrmts = [a0, a1, a2], prev_filtered_msrmts = [b0, b1]\<rparr>
             xs) ! 0)"
    using filter_seq_nth1 [of c a0 a1 a2 b0 b1 x x' zs]
    by (simp add: power2_eq_square)
next
  assume "2 \<le> n \<and> n < length xs"
  then have "2 \<le> n" and "n < length xs"
    by simp_all
  then show "fst (LowPassFilter_filter_seq
        \<lparr>filter_coeff = c, prev_msrmts = [a0, a1, a2], prev_filtered_msrmts = [b0, b1]\<rparr>
        xs) ! n =
      1 / (1 + c\<^sup>2 + 1.414 * c) *
        (xs ! n + 2 * xs ! (n - 1) + xs ! (n - 2)
         - (c\<^sup>2 - 1.414 * c + 1) *
           fst (LowPassFilter_filter_seq
             \<lparr>filter_coeff = c, prev_msrmts = [a0, a1, a2], prev_filtered_msrmts = [b0, b1]\<rparr>
             xs) ! (n - 2)
         - (- 2 * c\<^sup>2 + 2) *
           fst (LowPassFilter_filter_seq
             \<lparr>filter_coeff = c, prev_msrmts = [a0, a1, a2], prev_filtered_msrmts = [b0, b1]\<rparr>
             xs) ! (n - 1))"
    using filter_seq_recurrence [of n xs c a0 a1 a2 b0 b1]
    by (simp only: power2_eq_square mult.assoc)
qed

text \<open>
  The theorem at the filter that the constructor builds for \<open>c = 1\<close>, fed 1, 0, 0: the
  three hypotheses hold and the third value follows the recurrence.
\<close>

theorem C1_filter_recurrence_witness:
  "0 < length [1, 0, 0 :: real] \<and> 1 < length [1, 0, 0 :: real]
   \<and> (2::nat) \<le> 2 \<and> 2 < length [1, 0, 0 :: real]
   \<and> fst (LowPassFilter_filter_seq (LowPassFilter 1) [1, 0, 0]) ! 0 =
     1 / (1 + 1\<^sup>2 + 1.414 * 1) *
       (1 + 2 * 0 + 0 - (1\<^sup>2 - 1.414 * 1 + 1) * 0 - (- 2 * 1\<^sup>2 + 2) * 0)
   \<and> fst (LowPassFilter_filter_seq (LowPassFilter 1) [1, 0, 0]) ! 1 =
     1 / (1 + 1\<^sup>2 + 1.414 * 1) *
       (0 + 2 * 1 + 0 - (1\<^sup>2 - 1.414 * 1 + 1) * 0
        - (- 2 * 1\<^sup>2 + 2) * fst (LowPassFilter_filter_seq (LowPassFilter 1) [1, 0, 0]) ! 0)
   \<and> fst (LowPassFilter_filter_seq (LowPassFilter 1) [1, 0, 0]) ! 2 =
     1 / (1 + 1\<^sup>2 + 1.414 * 1) *
       (0 + 2 * 0 + 1
        - (1\<^sup>2 - 1.414 * 1 + 1) * fst (LowPassFilter_filter_seq (LowPassFilter 1) [1, 0, 0]) ! 0
        - (- 2 * 1\<^sup>2 + 2) * fst (LowPassFilter_filter_seq (LowPassFilter 1) [1, 0, 0]) ! 1)"
  using C1_filter_recurrence [of "[1, 0, 0]" 1 0 0 0 0 0 2]
  by (simp add: LowPassFilter_def)

text \<open>
  C1 as stated, with \<open>c\<^sup>2 - 1.414 c + 1\<close> on the most recently returned value and
  \<open>- 2 c\<^sup>2 + 2\<close> on the one before, fails. The filter built for \<open>c = 1\<close> and fed 1, 0, 0
  returns 500/1707, 1000/1707 and 707000/2913849; the stated formula gives another
  third value.
\<close>

theorem C1_stated_order_counterexample:
  "fst (LowPassFilter_filter_seq (LowPassFilter 1) [1, 0, 0]) =
     [500 / 1707, 1000 / 1707, 707000 / 2913849]
   \<and> fst (LowPassFilter_filter_seq (LowPassFilter 1) [1, 0, 0]) ! 2 \<noteq>
     1 / (1 + 1\<^sup>2 + 1.414 * 1) *
       (0 + 2 * 0 + 1
        - (1\<^sup>2 - 1.414 * 1 + 1) * fst (LowPassFilter_filter_seq (LowPassFilter 1) [1, 0, 0]) ! 1
        - (- 2 * 1\<^sup>2 + 2) * fst (LowPassFilter_filter_seq (LowPassFilter 1) [1, 0, 0]) ! 0)"
  unfolding filter_seq_example by simp

text \<open>
  C2. For every value \<open>v\<close> and every prior state, \<^verbatim>\<open>reset(v)\<close> puts \<open>v\<close> into the three raw
  slots and the two filtered slots and leaves the coefficient alone; what the five slots
  held before has no effect on the state after.
\<close>

theorem C2_reset_sets_all_slots:
  "LowPassFilter_reset v
     \<lparr>filter_coeff = c, prev_msrmts = [a0, a1, a2], prev_filtered_msrmts = [b0, b1]\<rparr> =
   \<lparr>filter_coeff = c, prev_msrmts = [v, v, v], prev_filtered_msrmts = [v, v]\<rparr>
   \<and> LowPassFilter_reset v
     \<lparr>filter_coeff = c, prev_msrmts = [a0, a1, a2], prev_filtered_msrmts = [b0, b1]\<rparr> =
     LowPassFilter_reset v
     \<lparr>filter_coeff = c, prev_msrmts = [a0', a1', a2'], prev_filtered_msrmts = [b0', b1']\<rparr>"
  by (simp add: LowPassFilter_reset_step)

subsection \<open>The steady state\<close>

lemma fixed_point_step:
  "LowPassFilter_filter v
     \<lparr>filter_coeff = c, prev_msrmts = [v, v, v], prev_filtered_msrmts = [v, v]\<rparr> =
   (v, \<lparr>filter_coeff = c, prev_msrmts = [v, v, v], prev_filtered_msrmts = [v, v]\<rparr>)"
proof -
  have pos: "0 < 1 + c * c + 1.414 * c"
    by (rule filter_divisor_pos)
  have "v + 2 * v + v - (c * c - 1.414 * c + 1) * v - (- 2 * c * c + 2) * v =
        (1 + c * c + 1.414 * c) * v"
    by (simp add: algebra_simps)
  with pos have "1 / (1 + c * c + 1.414 * c) *
      (v + 2 * v + v - (c * c - 1.414 * c + 1) * v - (- 2 * c * c + 2) * v) = v"
    by simp
  then show ?thesis
    by (simp only: LowPassFilter_filter_step)
qed

lemma fixed_point_seq:
  "LowPassFilter_filter_seq
     \<lparr>filter_coeff = c, prev_msrmts = [v, v, v], prev_filtered_msrmts = [v, v]\<rparr>
     (replicate n v) =
   (replicate n v,
    \<lparr>filter_coeff = c, prev_msrmts = [v, v, v], prev_filtered_msrmts = [v, v]\<rparr>)"
  by (induction n) (simp_all add: fixed_point_step Let_def)

text \<open>
  C3 (as amended). In exact arithmetic, for every coefficient \<open>c\<close> and every prior state,
  after \<^verbatim>\<open>reset(5.0)\<close> each of the next three calls \<^verbatim>\<open>filter(5.0)\<close> returns exactly 5, and
  the state stays the one that \<^verbatim>\<open>reset\<close> left.
\<close>

theorem C3_steady_state_exact:
  "LowPassFilter_filter_seq
     (LowPassFilter_reset 5
        \<lparr>filter_coeff = c, prev_msrmts = [a0, a1, a2], prev_filtered_msrmts = [b0, b1]\<rparr>)
     [5, 5, 5] =
   ([5, 5, 5],
    \<lparr>filter_coeff = c, prev_msrmts = [5, 5, 5], prev_filtered_msrmts = [5, 5]\<rparr>)"
  using fixed_point_seq [of c 5 3]
  by (simp add: LowPassFilter_reset_step numeral_3_eq_3)

subsection \<open>The steady state in double precision\<close>

lemma filter_rounded_step:
  "LowPassFilter_filter_rounded rnd x
     \<lparr>filter_coeff = c, prev_msrmts = [a0, a1, a2], prev_filtered_msrmts = [b0, b1]\<rparr> =
   (rnd (rnd (1 / rnd (rnd (1 + rnd (c * c)) + rnd (rnd 1.414 * c))) *
      rnd (rnd (rnd (rnd (a1 + rnd (2 * a0)) + x) -
        rnd (rnd (rnd (rnd (c * c) - rnd (rnd 1.414 * c)) + 1) * b1)) -
        rnd (rnd (rnd (rnd (- 2 * c) * c) + 2) * b0))),
    \<lparr>filter_coeff = c, prev_msrmts = [x, a0, a1],
     prev_filtered_msrmts =
       [rnd (rnd (1 / rnd (rnd (1 + rnd (c * c)) + rnd (rnd 1.414 * c))) *
          rnd (rnd (rnd (rnd (a1 + rnd (2 * a0)) + x) -
            rnd (rnd (rnd (rnd (c * c) - rnd (rnd 1.414 * c)) + 1) * b1)) -
            rnd (rnd (rnd (rnd (- 2 * c) * c) + 2) * b0))),
        b0]\<rparr>)"
  by (simp add: LowPassFilter_filter_rounded_def Let_def)

lemma binade_numeral:
  "binade (numeral k) x =
     (if 2 \<le> x then binade (pred_numeral k) (x / 2) + 1
      else if x < 1 then binade (pred_numeral k) (2 * x) - 1 else 0)"
  by (simp add: numeral_eq_Suc)

text \<open>
  The roundings of the call \<^verbatim>\<open>filter(5.0)\<close> after \<^verbatim>\<open>reset(5.0)\<close> for \<open>c = 1\<close>, one by one:
  the small integers are doubles; \<^verbatim>\<open>1.414\<close> becomes 6368089873101881 / 2^52; the divisor
  \<open>2 + 1.414\<close>, the reciprocal, the product with 5, the difference and the final product
  each lose their last bits.
\<close>

lemma round_binary64_small:
  "round_binary64 0 = 0" "round_binary64 1 = 1" "round_binary64 2 = 2"
  "round_binary64 5 = 5" "round_binary64 10 = 10" "round_binary64 15 = 15"
  "round_binary64 20 = 20" "round_binary64 (- 2) = - 2"
  by (simp_all add: round_binary64_def round_half_even_def Let_def binade_numeral)

text \<open>Two values that every implementation of binary64 agrees on: 0.1 and 1/3.\<close>

lemma round_binary64_known_values:
  "round_binary64 0.1 = 3602879701896397 / 36028797018963968"
  "round_binary64 (1 / 3) = 6004799503160661 / 18014398509481984"
  by (simp_all add: round_binary64_def round_half_even_def Let_def binade_numeral)

lemma round_binary64_literal:
  "round_binary64 (707 / 500) = 6368089873101881 / 4503599627370496"
  "round_binary64 (6368089873101881 / 4503599627370496) = 6368089873101881 / 4503599627370496"
  by (simp_all add: round_binary64_def round_half_even_def Let_def binade_numeral)

lemma round_binary64_divisor:
  "round_binary64 (15375289127842873 / 4503599627370496) =
     1921911140980359 / 562949953421312"
  "round_binary64 (562949953421312 / 1921911140980359) =
     5276625222461039 / 18014398509481984"
  by (simp_all add: round_binary64_def round_half_even_def Let_def binade_numeral)

lemma round_binary64_feedback:
  "round_binary64 (- (1864490245731385 / 4503599627370496)) =
     - (1864490245731385 / 4503599627370496)"
  "round_binary64 (2639109381639111 / 4503599627370496) =
     2639109381639111 / 4503599627370496"
  "round_binary64 (13195546908195555 / 4503599627370496) =
     3298886727048889 / 1125899906842624"
  by (simp_all add: round_binary64_def round_half_even_def Let_def binade_numeral)

lemma round_binary64_result:
  "round_binary64 (19219111409803591 / 1125899906842624) =
     2402388926225449 / 140737488355328"
  "round_binary64 (2402388926225449 / 140737488355328) =
     2402388926225449 / 140737488355328"
  "round_binary64 (12676506002282296439832732781511 / 2535301200456458802993406410752) =
     5629499534213121 / 1125899906842624"
  by (simp_all add: round_binary64_def round_half_even_def Let_def binade_numeral)

text \<open>
  C3 as stated fails in the arithmetic of the machine: for \<open>c = 1\<close>, the first call
  \<^verbatim>\<open>filter(5.0)\<close> after \<^verbatim>\<open>reset(5.0)\<close> returns 5629499534213121 / 2^50, the double next
  above 5 (5.000000000000001), not 5.
\<close>

theorem C3_double_precision_counterexample:
  "fst (LowPassFilter_filter_rounded round_binary64 5
          (LowPassFilter_reset 5 (LowPassFilter 1))) =
     5629499534213121 / 1125899906842624
   \<and> (5629499534213121 / 1125899906842624 :: real) \<noteq> 5"
  by (simp add: LowPassFilter_def LowPassFilter_reset_step filter_rounded_step
      round_binary64_small round_binary64_literal round_binary64_divisor
      round_binary64_feedback round_binary64_result)

subsection \<open>Totality\<close>

lemma LowPassFilter_double_filter_step:
  "LowPassFilter_double_filter x
     \<lparr>filter_coeff_d = c, prev_msrmts_d = [a0, a1, a2], prev_filtered_msrmts_d = [b0, b1]\<rparr> =
   ((1 / (1 + c * c + double_of_real 1.414 * c)) *
      (a1 + Finite 2 * a0 + x - (c * c - double_of_real 1.414 * c + 1) * b1 -
       (Finite (- 2) * c * c + Finite 2) * b0),
    \<lparr>filter_coeff_d = c, prev_msrmts_d = [x, a0, a1],
     prev_filtered_msrmts_d =
       [(1 / (1 + c * c + double_of_real 1.414 * c)) *
          (a1 + Finite 2 * a0 + x - (c * c - double_of_real 1.414 * c + 1) * b1 -
           (Finite (- 2) * c * c + Finite 2) * b0),
        b0]\<rparr>)"
  by (simp add: LowPassFilter_double_filter_def Let_def)

text \<open>
  C4 (as amended). In exact arithmetic, for every real coefficient, every state and every
  input, \<^verbatim>\<open>filter\<close> and \<^verbatim>\<open>reset\<close> cannot fail: the divisor \<open>1 + c\<^sup>2 + 1.414 c\<close> is
  positive, so the returned value times the divisor is the bracket of the formula (the
  division is a true division), and the value returned is a function of the coefficient,
  the stored history and the input, and of nothing else. In exact arithmetic and in
  double precision alike every index is inside its array: the constructor, \<^verbatim>\<open>filter\<close>
  and \<^verbatim>\<open>reset\<close> leave arrays of three and two slots. That the value returned in double
  precision is a number is not part of the statement.
\<close>

theorem C4_filter_and_reset_total:
  "0 < 1 + c * c + 1.414 * c
   \<and> (1 + c * c + 1.414 * c) *
       fst (LowPassFilter_filter x
         \<lparr>filter_coeff = c, prev_msrmts = [a0, a1, a2], prev_filtered_msrmts = [b0, b1]\<rparr>) =
       a1 + 2 * a0 + x - (c * c - 1.414 * c + 1) * b1 - (- 2 * c * c + 2) * b0
   \<and> LowPassFilter_wf (snd (LowPassFilter_filter x
         \<lparr>filter_coeff = c, prev_msrmts = [a0, a1, a2], prev_filtered_msrmts = [b0, b1]\<rparr>))
   \<and> LowPassFilter_wf (LowPassFilter_reset v
         \<lparr>filter_coeff = c, prev_msrmts = [a0, a1, a2], prev_filtered_msrmts = [b0, b1]\<rparr>)
   \<and> LowPassFilter_wf (LowPassFilter c)
   \<and> LowPassFilter_double_wf (snd (LowPassFilter_double_filter xd
         \<lparr>filter_coeff_d = cd, prev_msrmts_d = [d0, d1, d2],
          prev_filtered_msrmts_d = [e0, e1]\<rparr>))
   \<and> LowPassFilter_double_wf (LowPassFilter_double_reset vd
         \<lparr>filter_coeff_d = cd, prev_msrmts_d = [d0, d1, d2],
          prev_filtered_msrmts_d = [e0, e1]\<rparr>)
   \<and> LowPassFilter_double_wf (LowPassFilter_double cd)"
proof -
  have pos: "0 < 1 + c * c + 1.414 * c"
    by (rule filter_divisor_pos)
  then have "(1 + c * c + 1.414 * c) * (1 / (1 + c * c + 1.414 * c) * z) = z" for z
    by simp
  with pos have exact: "0 < 1 + c * c + 1.414 * c
   \<and> (1 + c * c + 1.414 * c) *
       fst (LowPassFilter_filter x
         \<lparr>filter_coeff = c, prev_msrmts = [a0, a1, a2], prev_filtered_msrmts = [b0, b1]\<rparr>) =
       a1 + 2 * a0 + x - (c * c - 1.414 * c + 1) * b1 - (- 2 * c * c + 2) * b0
   \<and> LowPassFilter_wf (snd (LowPassFilter_filter x
         \<lparr>filter_coeff = c, prev_msrmts = [a0, a1, a2], prev_filtered_msrmts = [b0, b1]\<rparr>))
   \<and> LowPassFilter_wf (LowPassFilter_reset v
         \<lparr>filter_coeff = c, prev_msrmts = [a0, a1, a2], prev_filtered_msrmts = [b0, b1]\<rparr>)
   \<and> LowPassFilter_wf (LowPassFilter c)"
    by (simp only: LowPassFilter_filter_step LowPassFilter_reset_step fst_conv snd_conv
          LowPassFilter_wf_def LowPassFilter_def LowPassFilter.simps list.size) simp
  have "LowPassFilter_double_wf (snd (LowPassFilter_double_filter xd
         \<lparr>filter_coeff_d = cd, prev_msrmts_d = [d0, d1, d2],
          prev_filtered_msrmts_d = [e0, e1]\<rparr>))"
    by (simp add: LowPassFilter_double_filter_step LowPassFilter_double_wf_def)
  moreover have "LowPassFilter_double_wf (LowPassFilter_double_reset vd
         \<lparr>filter_coeff_d = cd, prev_msrmts_d = [d0, d1, d2],
          prev_filtered_msrmts_d = [e0, e1]\<rparr>)"
    by (simp add: LowPassFilter_double_reset_def LowPassFilter_double_wf_def Let_def)
  moreover have "LowPassFilter_double_wf (LowPassFilter_double cd)"
    by (simp add: LowPassFilter_double_def LowPassFilter_double_wf_def)
  ultimately show ?thesis
    using exact by blast
qed

text \<open>
  The coefficient \<^verbatim>\<open>1e200\<close> as a double, and what the source computes from it: its
  square overflows, its product with \<^verbatim>\<open>1.414\<close> is finite.
\<close>

lemma double_of_real_small:
  "double_of_real 0 = Finite 0" "double_of_real 1 = Finite 1"
  "double_of_real 2 = Finite 2" "double_of_real 3 = Finite 3"
  by (simp_all add: double_of_real_def round_binary64_def round_half_even_def Let_def
      binade_numeral)

lemma coeff_1e200:
  "double_of_real (10 ^ 200) = Finite (2941796710330669 * 2 ^ 613)"
  by (simp add: double_of_real_def round_binary64_def round_half_even_def Let_def
      binade_numeral)

lemma coeff_1e200_squared:
  "Finite (2941796710330669 * 2 ^ 613) * Finite (2941796710330669 * 2 ^ 613) = PInf"
  by (simp add: double_of_real_def)

lemma coeff_1e200_damping:
  "double_of_real 1.414 * Finite (2941796710330669 * 2 ^ 613) =
     Finite (8319401096815131 * 2 ^ 612)"
  by (simp add: double_of_real_def round_binary64_def round_half_even_def Let_def
      binade_numeral)

lemma coeff_1e200_feedback:
  "Finite (- 2) * Finite (2941796710330669 * 2 ^ 613) * Finite (2941796710330669 * 2 ^ 613) =
     NInf"
  by (simp add: double_of_real_def round_binary64_def round_half_even_def Let_def
      binade_numeral)

text \<open>
  C4 as stated fails in the arithmetic of the machine. With the coefficient \<^verbatim>\<open>1e200\<close>
  the square of the coefficient is infinite, the factor \<open>1 / (1 + c\<^sup>2 + 1.414 c)\<close> is 0 and
  the factor of the older filtered value is infinite; a new filter (history 0) then
  returns infinity times zero, NaN, on \<^verbatim>\<open>filter(1.0)\<close>, stores it, and returns NaN again
  on the next call.
\<close>

theorem C4_overflow_counterexample:
  "fst (LowPassFilter_double_filter (Finite 1)
          (LowPassFilter_double (double_of_real (10 ^ 200)))) = NaN
   \<and> prev_filtered_msrmts_d
        (snd (LowPassFilter_double_filter (Finite 1)
               (LowPassFilter_double (double_of_real (10 ^ 200))))) = [NaN, Finite 0]
   \<and> fst (LowPassFilter_double_filter (Finite 1)
          (snd (LowPassFilter_double_filter (Finite 1)
                 (LowPassFilter_double (double_of_real (10 ^ 200)))))) = NaN"
proof -
  define c where "c = Finite (2941796710330669 * 2 ^ 613)"
  have cc: "c * c = PInf"
    unfolding c_def by (rule coeff_1e200_squared)
  have lc: "double_of_real 1.414 * c = Finite (8319401096815131 * 2 ^ 612)"
    unfolding c_def by (rule coeff_1e200_damping)
  have mcc: "Finite (- 2) * c * c = NInf"
    unfolding c_def by (rule coeff_1e200_feedback)
  have first: "LowPassFilter_double_filter (Finite 1) (LowPassFilter_double c) =
      (NaN, \<lparr>filter_coeff_d = c, prev_msrmts_d = [Finite 1, Finite 0, Finite 0],
              prev_filtered_msrmts_d = [NaN, Finite 0]\<rparr>)"
    unfolding LowPassFilter_double_def LowPassFilter_double_filter_step cc lc mcc
    by (simp add: one_double_def minus_double_def double_of_real_small)
  have second: "fst (LowPassFilter_double_filter (Finite 1)
      \<lparr>filter_coeff_d = c, prev_msrmts_d = [Finite 1, Finite 0, Finite 0],
        prev_filtered_msrmts_d = [NaN, Finite 0]\<rparr>) = NaN"
    unfolding LowPassFilter_double_filter_step cc lc mcc
    by (simp add: one_double_def minus_double_def double_of_real_small)
  show ?thesis
    unfolding coeff_1e200 c_def [symmetric] first using second by simp
qed

section \<open>Properties of the jogging engine\<close>

subsection \<open>Scale factors\<close>

lemma clamp_unit_range: "0 \<le> clamp_unit x \<and> clamp_unit x \<le> 1"
  by (simp add: clamp_unit_def)

lemma two_threshold_scale_range:
  "0 \<le> two_threshold_scale ramp lower hard p \<and> two_threshold_scale ramp lower hard p \<le> 1"
  by (simp add: two_threshold_scale_def clamp_unit_range)

lemma decelerateForSingularity_range:
  "0 \<le> decelerateForSingularity ramp p jac \<and> decelerateForSingularity ramp p jac \<le> 1"
  by (simp add: decelerateForSingularity_def two_threshold_scale_range)

lemma jogCalcs_cycle_keeps_collision_scale:
  "collision_velocity_scale (shared (jogCalcs_cycle ramp jac bounds now cmd calc sh)) =
   collision_velocity_scale sh"
  by (cases cmd)
     (simp_all add: jogCalcs_cycle_def cartesianJogCalcs_def jointJogCalcs_def Let_def)

text \<open>
  C5. Whatever the proximity and whatever the interpolation between the thresholds, the
  singularity scale, the collision scale that the monitor writes and their combination
  lie between 0 and 1, and a proximity at or below the hard-stop threshold gives exactly
  0. The engine itself never changes the collision scale, which starts at 1.
\<close>

theorem C5_scale_factor_range:
  "0 \<le> two_threshold_scale ramp lower hard proximity
   \<and> two_threshold_scale ramp lower hard proximity \<le> 1
   \<and> (proximity \<le> hard \<longrightarrow> two_threshold_scale ramp lower hard proximity = 0)
   \<and> 0 \<le> decelerateForSingularity ramp p jac
   \<and> decelerateForSingularity ramp p jac \<le> 1
   \<and> (smallest_singular_value jac \<le> hard_stop_singularity_threshold p \<longrightarrow>
        decelerateForSingularity ramp p jac = 0)
   \<and> 0 \<le> collision_velocity_scale (CollisionCheckThread_cycle ramp p distance sh)
   \<and> collision_velocity_scale (CollisionCheckThread_cycle ramp p distance sh) \<le> 1
   \<and> (distance \<le> hard_stop_collision_proximity_threshold p \<longrightarrow>
        collision_velocity_scale (CollisionCheckThread_cycle ramp p distance sh) = 0)
   \<and> collision_velocity_scale (shared (jogCalcs_cycle ramp jac bounds now cmd calc sh)) =
       collision_velocity_scale sh
   \<and> collision_velocity_scale jog_arm_shared_init = 1
   \<and> 0 \<le> ScaleFactor a b \<and> ScaleFactor a b \<le> 1
   \<and> ScaleFactor 0 b = 0 \<and> ScaleFactor a 0 = 0"
proof -
  have "proximity \<le> hard \<longrightarrow> two_threshold_scale ramp lower hard proximity = 0"
    by (simp add: two_threshold_scale_def)
  moreover have "smallest_singular_value jac \<le> hard_stop_singularity_threshold p \<longrightarrow>
        decelerateForSingularity ramp p jac = 0"
    by (simp add: decelerateForSingularity_def)
  moreover have "distance \<le> hard_stop_collision_proximity_threshold p \<longrightarrow>
        collision_velocity_scale (CollisionCheckThread_cycle ramp p distance sh) = 0"
    by (simp add: CollisionCheckThread_cycle_def two_threshold_scale_def)
  moreover have "0 \<le> collision_velocity_scale (CollisionCheckThread_cycle ramp p distance sh)
       \<and> collision_velocity_scale (CollisionCheckThread_cycle ramp p distance sh) \<le> 1"
    by (simp add: CollisionCheckThread_cycle_def two_threshold_scale_range)
  moreover have "ScaleFactor 0 b = 0 \<and> ScaleFactor a 0 = 0"
    by (simp add: ScaleFactor_def clamp_unit_def)
  moreover have "0 \<le> ScaleFactor a b \<and> ScaleFactor a b \<le> 1"
    by (simp add: ScaleFactor_def clamp_unit_range)
  moreover have "collision_velocity_scale jog_arm_shared_init = 1"
    by (simp add: jog_arm_shared_init_def)
  ultimately show ?thesis
    using two_threshold_scale_range [of ramp lower hard proximity]
      decelerateForSingularity_range [of ramp p jac]
      jogCalcs_cycle_keeps_collision_scale [of ramp jac bounds now cmd calc sh]
    by blast
qed

text \<open>
  The theorem with thresholds 0.1 and 0.05 and a linear ramp: a proximity of 0.03, a
  smallest singular value of 0.01 and a distance of 0.05 are at or below the hard stop
  and give 0; halfway between the thresholds the scale is 1/2.
\<close>

theorem C5_scale_factor_range_witness:
  "(0.03::real) \<le> 0.05
   \<and> two_threshold_scale example_ramp 0.1 0.05 0.03 = 0
   \<and> two_threshold_scale example_ramp 0.1 0.05 0.075 = 0.5
   \<and> smallest_singular_value example_jacobian \<le> hard_stop_singularity_threshold example_parameters
   \<and> decelerateForSingularity example_ramp example_parameters example_jacobian = 0
   \<and> (0.05::real) \<le> hard_stop_collision_proximity_threshold example_parameters
   \<and> collision_velocity_scale
        (CollisionCheckThread_cycle example_ramp example_parameters 0.05 jog_arm_shared_init) = 0"
  using C5_scale_factor_range [where ramp = example_ramp and lower = "0.1" and hard = "0.05"
      and proximity = "0.03" and p = example_parameters and jac = example_jacobian
      and distance = "0.05" and sh = jog_arm_shared_init]
  by (simp add: two_threshold_scale_def example_ramp_def clamp_unit_def example_jacobian_def
      example_parameters_def)

subsection \<open>Halting\<close>

lemma halt_composed:
  "points (halt calc (composeOutgoingMessage p js)) =
     [\<lparr>positions = js_position (jt_state calc),
       velocities = map (\<lambda>_. 0) (js_position (jt_state calc)),
       accelerations = [], time_from_start = publish_period p\<rparr>]"
  by (simp add: halt_def composeOutgoingMessage_def)

lemma LowPassFilter_filter_keeps:
  "filter_coeff (snd (LowPassFilter_filter v f)) = filter_coeff f"
  "LowPassFilter_wf (snd (LowPassFilter_filter v f)) = LowPassFilter_wf f"
  by (simp_all add: LowPassFilter_filter_def Let_def LowPassFilter_wf_def)

lemma filter_each_keeps:
  "map filter_coeff (snd (filter_each fs vs)) = map filter_coeff fs"
  "list_all LowPassFilter_wf (snd (filter_each fs vs)) = list_all LowPassFilter_wf fs"
  by (induction fs vs rule: filter_each.induct)
     (simp_all add: Let_def LowPassFilter_filter_keeps)

lemma jog_step_keeps:
  "map filter_coeff (velocity_filters (fst (jog_step bounds d calc))) =
     map filter_coeff (velocity_filters calc)"
  "list_all LowPassFilter_wf (velocity_filters (fst (jog_step bounds d calc))) =
     list_all LowPassFilter_wf (velocity_filters calc)"
  "map filter_coeff (position_filters (fst (jog_step bounds d calc))) =
     map filter_coeff (position_filters calc)"
  "list_all LowPassFilter_wf (position_filters (fst (jog_step bounds d calc))) =
     list_all LowPassFilter_wf (position_filters calc)"
  "jt_state (fst (jog_step bounds d calc)) = jt_state calc"
  by (simp_all add: jog_step_def Let_def filter_each_keeps)

text \<open>
  Whatever path a command takes, the engine keeps its filters: their number, their
  coefficients and the sizes of their arrays; and it keeps the joint state it read.
\<close>

lemma cartesianJogCalcs_keeps:
  "map filter_coeff (velocity_filters (calcs (cartesianJogCalcs ramp jac bounds twist calc sh))) =
     map filter_coeff (velocity_filters calc)"
  "list_all LowPassFilter_wf
     (velocity_filters (calcs (cartesianJogCalcs ramp jac bounds twist calc sh))) =
     list_all LowPassFilter_wf (velocity_filters calc)"
  "map filter_coeff (position_filters (calcs (cartesianJogCalcs ramp jac bounds twist calc sh))) =
     map filter_coeff (position_filters calc)"
  "list_all LowPassFilter_wf
     (position_filters (calcs (cartesianJogCalcs ramp jac bounds twist calc sh))) =
     list_all LowPassFilter_wf (position_filters calc)"
  "jt_state (calcs (cartesianJogCalcs ramp jac bounds twist calc sh)) = jt_state calc"
  by (simp_all add: cartesianJogCalcs_def Let_def jog_step_keeps)

lemma jointJogCalcs_keeps:
  "map filter_coeff (velocity_filters (calcs (jointJogCalcs bounds jog calc sh))) =
     map filter_coeff (velocity_filters calc)"
  "list_all LowPassFilter_wf (velocity_filters (calcs (jointJogCalcs bounds jog calc sh))) =
     list_all LowPassFilter_wf (velocity_filters calc)"
  "map filter_coeff (position_filters (calcs (jointJogCalcs bounds jog calc sh))) =
     map filter_coeff (position_filters calc)"
  "list_all LowPassFilter_wf (position_filters (calcs (jointJogCalcs bounds jog calc sh))) =
     list_all LowPassFilter_wf (position_filters calc)"
  "jt_state (calcs (jointJogCalcs bounds jog calc sh)) = jt_state calc"
  by (simp_all add: jointJogCalcs_def Let_def jog_step_keeps)

lemma path_keeps_filters:
  assumes "out = cartesianJogCalcs ramp jac bounds twist calc sh
           \<or> out = jointJogCalcs bounds jog calc sh"
  shows "map filter_coeff (velocity_filters (calcs out)) =
           map filter_coeff (velocity_filters calc)"
    and "list_all LowPassFilter_wf (velocity_filters (calcs out)) =
           list_all LowPassFilter_wf (velocity_filters calc)"
    and "map filter_coeff (position_filters (calcs out)) =
           map filter_coeff (position_filters calc)"
    and "list_all LowPassFilter_wf (position_filters (calcs out)) =
           list_all LowPassFilter_wf (position_filters calc)"
    and "jt_state (calcs out) = jt_state calc"
  using assms cartesianJogCalcs_keeps [of ramp jac bounds twist calc sh]
    jointJogCalcs_keeps [of bounds jog calc sh]
  by auto

lemma LowPassFilter_reset_saturates:
  assumes "LowPassFilter_wf f"
  shows "LowPassFilter_reset v f =
    \<lparr>filter_coeff = filter_coeff f, prev_msrmts = [v, v, v], prev_filtered_msrmts = [v, v]\<rparr>"
proof -
  from assms obtain a0 a1 a2 where m: "prev_msrmts f = [a0, a1, a2]"
    by (auto simp add: LowPassFilter_wf_def numeral_3_eq_3 length_Suc_conv)
  from assms obtain b0 b1 where p: "prev_filtered_msrmts f = [b0, b1]"
    by (auto simp add: LowPassFilter_wf_def numeral_2_eq_2 length_Suc_conv)
  have "f = \<lparr>filter_coeff = filter_coeff f, prev_msrmts = [a0, a1, a2],
             prev_filtered_msrmts = [b0, b1]\<rparr>"
    using m p by (cases f) simp
  then have "LowPassFilter_reset v f = LowPassFilter_reset v
      \<lparr>filter_coeff = filter_coeff f, prev_msrmts = [a0, a1, a2],
        prev_filtered_msrmts = [b0, b1]\<rparr>"
    by simp
  then show ?thesis
    by (simp only: LowPassFilter_reset_step)
qed

lemma map_reset_saturates:
  "list_all LowPassFilter_wf gs \<Longrightarrow> map filter_coeff gs = map filter_coeff fs \<Longrightarrow>
   map (LowPassFilter_reset v) gs =
   map (\<lambda>f. \<lparr>filter_coeff = filter_coeff f, prev_msrmts = [v, v, v],
              prev_filtered_msrmts = [v, v]\<rparr>) fs"
proof (induction gs arbitrary: fs)
  case Nil
  then show ?case by simp
next
  case (Cons g gs)
  then obtain f fs' where fs: "fs = f # fs'"
    by (cases fs) auto
  with Cons show ?case
    by (simp add: LowPassFilter_reset_saturates)
qed

lemma take_padded: "k \<le> n \<Longrightarrow> take k (a # replicate n a) = replicate k a"
  using take_replicate [of k "Suc n" a] by (simp add: min_def)

lemma reset_each_saturates:
  "list_all LowPassFilter_wf gs \<Longrightarrow> map filter_coeff gs = map filter_coeff fs \<Longrightarrow>
   reset_each qs gs =
   map (\<lambda>(q, f). \<lparr>filter_coeff = filter_coeff f, prev_msrmts = [q, q, q],
                   prev_filtered_msrmts = [q, q]\<rparr>)
       (zip (take (length fs) (qs @ replicate (length fs) 0)) fs)"
proof (induction gs arbitrary: fs qs)
  case Nil
  then show ?case by simp
next
  case (Cons g gs)
  then obtain f fs' where fs: "fs = f # fs'"
    by (cases fs) auto
  show ?case
  proof (cases qs)
    case Nil
    with fs Cons.prems Cons.IH [of fs' "[]"] show ?thesis
      by (simp add: LowPassFilter_reset_saturates)
  next
    case (Cons q qs')
    with fs Cons.prems Cons.IH [of fs' qs'] show ?thesis
      by (simp add: LowPassFilter_reset_saturates take_padded)
  qed
qed

lemma length_reset_each: "length (reset_each qs fs) = length fs"
  by (induction qs fs rule: reset_each.induct) simp_all

lemma stale_cycle_output:
  assumes "now - incoming_cmd_stamp sh > incoming_command_timeout (parameters calc)"
  shows "\<exists>out twist jog.
     (out = cartesianJogCalcs ramp jac bounds twist calc sh
      \<or> out = jointJogCalcs bounds jog calc sh)
     \<and> jogCalcs_cycle ramp jac bounds now cmd calc sh =
        out\<lparr>calcs := resetPositionFilters (resetVelocityFilters (calcs out)),
            shared := (shared out)
              \<lparr>command_is_stale := True,
               new_traj := halt calc (composeOutgoingMessage (parameters calc) (jt_state calc)),
               ok_to_publish := True\<rparr>\<rparr>"
proof (cases cmd)
  case (Cartesian t)
  with assms have "jogCalcs_cycle ramp jac bounds now cmd calc sh =
        (cartesianJogCalcs ramp jac bounds t calc sh)
          \<lparr>calcs := resetPositionFilters (resetVelocityFilters
              (calcs (cartesianJogCalcs ramp jac bounds t calc sh))),
            shared := (shared (cartesianJogCalcs ramp jac bounds t calc sh))
              \<lparr>command_is_stale := True,
               new_traj := halt calc (composeOutgoingMessage (parameters calc) (jt_state calc)),
               ok_to_publish := True\<rparr>\<rparr>"
    by (simp add: jogCalcs_cycle_def Let_def)
  then show ?thesis
    by blast
next
  case (Joint j)
  with assms have "jogCalcs_cycle ramp jac bounds now cmd calc sh =
        (jointJogCalcs bounds j calc sh)
          \<lparr>calcs := resetPositionFilters (resetVelocityFilters
              (calcs (jointJogCalcs bounds j calc sh))),
            shared := (shared (jointJogCalcs bounds j calc sh))
              \<lparr>command_is_stale := True,
               new_traj := halt calc (composeOutgoingMessage (parameters calc) (jt_state calc)),
               ok_to_publish := True\<rparr>\<rparr>"
    by (simp add: jogCalcs_cycle_def Let_def)
  then show ?thesis
    by blast
qed

text \<open>
  C6. In every control cycle in which the time since the last recorded command exceeds
  \<^verbatim>\<open>incoming_command_timeout\<close>, the engine sets \<^verbatim>\<open>command_is_stale\<close>, writes a trajectory
  whose point holds the last known joint positions with all velocities 0, whatever the
  command, the Jacobian and the trajectory computed before, and resets the history of
  all its filters: it keeps every filter and its coefficient; the three raw slots and
  the two filtered slots of every velocity filter hold 0; those of every position filter
  hold the held position of its joint (0 for a filter beyond the known positions). The
  slots can be named where the arrays have their three and two slots, which the class
  guarantees.
\<close>

theorem C6_stale_command_halts:
  assumes "now - incoming_cmd_stamp sh > incoming_command_timeout (parameters calc)"
  shows "command_is_stale (shared (jogCalcs_cycle ramp jac bounds now cmd calc sh))
   \<and> points (new_traj (shared (jogCalcs_cycle ramp jac bounds now cmd calc sh))) =
       [\<lparr>positions = js_position (jt_state calc),
         velocities = map (\<lambda>_. 0) (js_position (jt_state calc)),
         accelerations = [], time_from_start = publish_period (parameters calc)\<rparr>]
   \<and> new_traj (shared (jogCalcs_cycle ramp jac bounds now cmd calc sh)) =
       new_traj (shared (jogCalcs_cycle ramp' jac' bounds' now cmd' calc
                           (sh\<lparr>new_traj := previous, command_deltas := twist',
                               joint_command_deltas := jog'\<rparr>)))
   \<and> length (velocity_filters (calcs (jogCalcs_cycle ramp jac bounds now cmd calc sh))) =
       length (velocity_filters calc)
   \<and> length (position_filters (calcs (jogCalcs_cycle ramp jac bounds now cmd calc sh))) =
       length (position_filters calc)
   \<and> (list_all LowPassFilter_wf (velocity_filters calc) \<longrightarrow>
       velocity_filters (calcs (jogCalcs_cycle ramp jac bounds now cmd calc sh)) =
         map (\<lambda>f. \<lparr>filter_coeff = filter_coeff f, prev_msrmts = [0, 0, 0],
                    prev_filtered_msrmts = [0, 0]\<rparr>)
             (velocity_filters calc))
   \<and> (list_all LowPassFilter_wf (position_filters calc) \<longrightarrow>
       position_filters (calcs (jogCalcs_cycle ramp jac bounds now cmd calc sh)) =
         map (\<lambda>(q, f). \<lparr>filter_coeff = filter_coeff f, prev_msrmts = [q, q, q],
                         prev_filtered_msrmts = [q, q]\<rparr>)
             (zip (take (length (position_filters calc))
                     (js_position (jt_state calc)
                      @ replicate (length (position_filters calc)) 0))
                  (position_filters calc)))
   \<and> (list_all LowPassFilter_wf (position_filters calc)
       \<and> length (position_filters calc) = length (js_position (jt_state calc)) \<longrightarrow>
       position_filters (calcs (jogCalcs_cycle ramp jac bounds now cmd calc sh)) =
         map (\<lambda>(q, f). \<lparr>filter_coeff = filter_coeff f, prev_msrmts = [q, q, q],
                         prev_filtered_msrmts = [q, q]\<rparr>)
             (zip (js_position (jt_state calc)) (position_filters calc)))"
proof -
  obtain out twist jog where out: "out = cartesianJogCalcs ramp jac bounds twist calc sh
      \<or> out = jointJogCalcs bounds jog calc sh"
    and cyc: "jogCalcs_cycle ramp jac bounds now cmd calc sh =
        out\<lparr>calcs := resetPositionFilters (resetVelocityFilters (calcs out)),
            shared := (shared out)
              \<lparr>command_is_stale := True,
               new_traj := halt calc (composeOutgoingMessage (parameters calc) (jt_state calc)),
               ok_to_publish := True\<rparr>\<rparr>"
    using stale_cycle_output [OF assms(1), of ramp jac bounds cmd]
    by blast
  have stale': "now - incoming_cmd_stamp
      (sh\<lparr>new_traj := previous, command_deltas := twist', joint_command_deltas := jog'\<rparr>)
      > incoming_command_timeout (parameters calc)"
    using assms(1) by simp
  obtain out' where cyc': "jogCalcs_cycle ramp' jac' bounds' now cmd' calc
        (sh\<lparr>new_traj := previous, command_deltas := twist', joint_command_deltas := jog'\<rparr>) =
        out'\<lparr>calcs := resetPositionFilters (resetVelocityFilters (calcs out')),
            shared := (shared out')
              \<lparr>command_is_stale := True,
               new_traj := halt calc (composeOutgoingMessage (parameters calc) (jt_state calc)),
               ok_to_publish := True\<rparr>\<rparr>"
    using stale_cycle_output [OF stale', of ramp' jac' bounds' cmd']
    by blast
  note keep = path_keeps_filters [OF out]
  have vel: "velocity_filters (calcs (jogCalcs_cycle ramp jac bounds now cmd calc sh)) =
       map (\<lambda>f. \<lparr>filter_coeff = filter_coeff f, prev_msrmts = [0, 0, 0],
                  prev_filtered_msrmts = [0, 0]\<rparr>)
           (velocity_filters calc)"
    if "list_all LowPassFilter_wf (velocity_filters calc)"
    using map_reset_saturates [of "velocity_filters (calcs out)" "velocity_filters calc" 0]
      keep(1,2) that
    by (simp add: cyc resetVelocityFilters_def resetPositionFilters_def)
  have pos: "position_filters (calcs (jogCalcs_cycle ramp jac bounds now cmd calc sh)) =
       map (\<lambda>(q, f). \<lparr>filter_coeff = filter_coeff f, prev_msrmts = [q, q, q],
                       prev_filtered_msrmts = [q, q]\<rparr>)
           (zip (take (length (position_filters calc))
                   (js_position (jt_state calc)
                    @ replicate (length (position_filters calc)) 0))
                (position_filters calc))"
    if "list_all LowPassFilter_wf (position_filters calc)"
    using reset_each_saturates [of "position_filters (calcs out)" "position_filters calc"
        "js_position (jt_state calc)"] keep(3,4,5) that
    by (simp add: cyc resetVelocityFilters_def resetPositionFilters_def)
  have pos': "position_filters (calcs (jogCalcs_cycle ramp jac bounds now cmd calc sh)) =
       map (\<lambda>(q, f). \<lparr>filter_coeff = filter_coeff f, prev_msrmts = [q, q, q],
                       prev_filtered_msrmts = [q, q]\<rparr>)
           (zip (js_position (jt_state calc)) (position_filters calc))"
    if "list_all LowPassFilter_wf (position_filters calc)"
      and "length (position_filters calc) = length (js_position (jt_state calc))"
    using pos [OF that(1)] that(2) by simp
  have "command_is_stale (shared (jogCalcs_cycle ramp jac bounds now cmd calc sh))"
    by (simp add: cyc)
  moreover have "points (new_traj (shared (jogCalcs_cycle ramp jac bounds now cmd calc sh))) =
       [\<lparr>positions = js_position (jt_state calc),
         velocities = map (\<lambda>_. 0) (js_position (jt_state calc)),
         accelerations = [], time_from_start = publish_period (parameters calc)\<rparr>]"
    by (simp add: cyc halt_composed)
  moreover have "new_traj (shared (jogCalcs_cycle ramp jac bounds now cmd calc sh)) =
       new_traj (shared (jogCalcs_cycle ramp' jac' bounds' now cmd' calc
                           (sh\<lparr>new_traj := previous, command_deltas := twist',
                               joint_command_deltas := jog'\<rparr>)))"
    by (simp add: cyc cyc')
  moreover have "length (velocity_filters (calcs (jogCalcs_cycle ramp jac bounds now cmd calc sh)))
      = length (velocity_filters calc)"
    using map_eq_imp_length_eq [OF keep(1)]
    by (simp add: cyc resetVelocityFilters_def resetPositionFilters_def)
  moreover have "length (position_filters (calcs (jogCalcs_cycle ramp jac bounds now cmd calc sh)))
      = length (position_filters calc)"
    using map_eq_imp_length_eq [OF keep(3)]
    by (simp add: cyc resetVelocityFilters_def resetPositionFilters_def length_reset_each)
  ultimately show ?thesis
    using vel pos pos' by blast
qed

text \<open>
  The theorem five seconds after start, with a timeout of one second and no command so
  far: the two joints are held at 0.5 and -0.25 with velocity 0; the first velocity
  filter, which had filtered 1 and 2, is back to a history of zeros; the first position
  filter, which had filtered 0.4 and 0.5, holds 0.5 in its five slots, the second -0.25.
\<close>

theorem C6_stale_command_halts_witness:
  "5 - incoming_cmd_stamp jog_arm_shared_init
     > incoming_command_timeout (parameters example_calcs)
   \<and> list_all LowPassFilter_wf (velocity_filters example_calcs)
   \<and> list_all LowPassFilter_wf (position_filters example_calcs)
   \<and> length (position_filters example_calcs) = length (js_position (jt_state example_calcs))
   \<and> prev_msrmts (velocity_filters example_calcs ! 0) = [2, 1, 0]
   \<and> prev_msrmts (position_filters example_calcs ! 0) = [0.5, 0.4, 0]
   \<and> command_is_stale
       (shared (jogCalcs_cycle example_ramp example_jacobian (\<lambda>_. (- 1, 1)) 5
                  (Cartesian example_twist) example_calcs jog_arm_shared_init))
   \<and> points (new_traj
       (shared (jogCalcs_cycle example_ramp example_jacobian (\<lambda>_. (- 1, 1)) 5
                  (Cartesian example_twist) example_calcs jog_arm_shared_init))) =
       [\<lparr>positions = [0.5, - 0.25], velocities = [0, 0], accelerations = [],
         time_from_start = 0.01\<rparr>]
   \<and> velocity_filters
       (calcs (jogCalcs_cycle example_ramp example_jacobian (\<lambda>_. (- 1, 1)) 5
                  (Cartesian example_twist) example_calcs jog_arm_shared_init)) =
       [\<lparr>filter_coeff = 2, prev_msrmts = [0, 0, 0], prev_filtered_msrmts = [0, 0]\<rparr>,
        \<lparr>filter_coeff = 2, prev_msrmts = [0, 0, 0], prev_filtered_msrmts = [0, 0]\<rparr>]
   \<and> position_filters
       (calcs (jogCalcs_cycle example_ramp example_jacobian (\<lambda>_. (- 1, 1)) 5
                  (Cartesian example_twist) example_calcs jog_arm_shared_init)) =
       [\<lparr>filter_coeff = 2, prev_msrmts = [0.5, 0.5, 0.5], prev_filtered_msrmts = [0.5, 0.5]\<rparr>,
        \<lparr>filter_coeff = 2, prev_msrmts = [- 0.25, - 0.25, - 0.25],
          prev_filtered_msrmts = [- 0.25, - 0.25]\<rparr>]"
proof -
  have stale: "5 - incoming_cmd_stamp jog_arm_shared_init
      > incoming_command_timeout (parameters example_calcs)"
    by (simp add: jog_arm_shared_init_def example_calcs_def example_parameters_def)
  have vwf: "list_all LowPassFilter_wf (velocity_filters example_calcs)"
    and pwf: "list_all LowPassFilter_wf (position_filters example_calcs)"
    and len: "length (position_filters example_calcs) =
        length (js_position (jt_state example_calcs))"
    and vhist: "prev_msrmts (velocity_filters example_calcs ! 0) = [2, 1, 0]"
    and phist: "prev_msrmts (position_filters example_calcs ! 0) = [0.5, 0.4, 0]"
    by (simp_all add: example_calcs_def LowPassFilter_def LowPassFilter_wf_def
        LowPassFilter_filter_step Let_def)
  have coeffs: "map filter_coeff (velocity_filters example_calcs) = [2, 2]"
    "map filter_coeff (position_filters example_calcs) = [2, 2]"
    by (simp_all add: example_calcs_def LowPassFilter_def LowPassFilter_filter_step Let_def)
  have held: "js_position (jt_state example_calcs) = [0.5, - 0.25]"
    and period: "publish_period (parameters example_calcs) = 0.01"
    by (simp_all add: example_calcs_def example_parameters_def)
  obtain v0 v1 where vs: "velocity_filters example_calcs = [v0, v1]"
    by (simp add: example_calcs_def)
  obtain p0 p1 where ps: "position_filters example_calcs = [p0, p1]"
    by (simp add: example_calcs_def)
  show ?thesis
    using stale vwf pwf len vhist phist coeffs
      C6_stale_command_halts [OF stale, of example_ramp example_jacobian
        "\<lambda>_. (- 1, 1)" "Cartesian example_twist"]
    by (simp add: held period vs ps)
qed

lemma cycle_cartesian_warning:
  "warning (jogCalcs_cycle ramp jac bounds now (Cartesian cmd) calc sh) =
     Some (smallest_singular_value jac \<le> hard_stop_singularity_threshold (parameters calc)
           \<or> collision_velocity_scale sh = 0)"
  by (simp add: jogCalcs_cycle_def cartesianJogCalcs_def Let_def)

lemma cycle_cartesian_halt:
  assumes "smallest_singular_value jac \<le> hard_stop_singularity_threshold (parameters calc)
           \<or> collision_velocity_scale sh = 0"
  shows "points (new_traj (shared (jogCalcs_cycle ramp jac bounds now (Cartesian cmd) calc sh))) =
     [\<lparr>positions = js_position (jt_state calc),
       velocities = map (\<lambda>_. 0) (js_position (jt_state calc)),
       accelerations = [], time_from_start = publish_period (parameters calc)\<rparr>]"
  using assms
  by (auto simp add: jogCalcs_cycle_def cartesianJogCalcs_def Let_def halt_composed)

lemma monitor_hard_stop:
  "distance \<le> hard_stop_collision_proximity_threshold p \<Longrightarrow>
   collision_velocity_scale (CollisionCheckThread_cycle ramp p distance sh) = 0"
  by (simp add: CollisionCheckThread_cycle_def two_threshold_scale_def)

lemma monitor_no_hard_stop:
  assumes "hard_stop_collision_proximity_threshold p < distance"
    and "distance < lower_collision_proximity_threshold p \<longrightarrow> 0 < ramp distance"
  shows "collision_velocity_scale (CollisionCheckThread_cycle ramp p distance sh) \<noteq> 0"
  using assms
  by (auto simp add: CollisionCheckThread_cycle_def two_threshold_scale_def clamp_unit_def
      max_def min_def)

text \<open>
  C7. For every Cartesian command and in every cycle, stale or not: if the smallest
  singular value of the Jacobian is at or below \<^verbatim>\<open>hard_stop_singularity_threshold\<close>, or if
  the collision monitor has seen a distance at or below its hard-stop threshold, the
  cycle writes the halt trajectory (current positions, all velocities 0) and raises the
  warning. If neither hard stop holds (the singular value is above its threshold, the
  distance above its own, and the interpolation of the monitor is positive there), the
  warning is cleared, whatever the scale factor. In terms of the shared variables: the
  warning is raised exactly when the singular value is at or below its threshold or
  the collision scale is 0.
\<close>

theorem C7_hard_stop_halts_and_warns:
  "(smallest_singular_value jac \<le> hard_stop_singularity_threshold (parameters calc) \<longrightarrow>
      warning (jogCalcs_cycle ramp jac bounds now (Cartesian cmd) calc sh) = Some True
      \<and> points (new_traj (shared
            (jogCalcs_cycle ramp jac bounds now (Cartesian cmd) calc sh))) =
          [\<lparr>positions = js_position (jt_state calc),
            velocities = map (\<lambda>_. 0) (js_position (jt_state calc)),
            accelerations = [], time_from_start = publish_period (parameters calc)\<rparr>])
   \<and> (distance \<le> hard_stop_collision_proximity_threshold p \<longrightarrow>
      warning (jogCalcs_cycle ramp jac bounds now (Cartesian cmd) calc
                 (CollisionCheckThread_cycle ramp' p distance sh)) = Some True
      \<and> points (new_traj (shared
            (jogCalcs_cycle ramp jac bounds now (Cartesian cmd) calc
               (CollisionCheckThread_cycle ramp' p distance sh)))) =
          [\<lparr>positions = js_position (jt_state calc),
            velocities = map (\<lambda>_. 0) (js_position (jt_state calc)),
            accelerations = [], time_from_start = publish_period (parameters calc)\<rparr>])
   \<and> (hard_stop_singularity_threshold (parameters calc) < smallest_singular_value jac
       \<and> hard_stop_collision_proximity_threshold p < distance
       \<and> (distance < lower_collision_proximity_threshold p \<longrightarrow> 0 < ramp' distance) \<longrightarrow>
      warning (jogCalcs_cycle ramp jac bounds now (Cartesian cmd) calc
                 (CollisionCheckThread_cycle ramp' p distance sh)) = Some False)
   \<and> warning (jogCalcs_cycle ramp jac bounds now (Cartesian cmd) calc sh) =
       Some (smallest_singular_value jac \<le> hard_stop_singularity_threshold (parameters calc)
             \<or> collision_velocity_scale sh = 0)"
proof (intro conjI impI)
  assume sing: "smallest_singular_value jac \<le> hard_stop_singularity_threshold (parameters calc)"
  then show "warning (jogCalcs_cycle ramp jac bounds now (Cartesian cmd) calc sh) = Some True"
    by (simp add: cycle_cartesian_warning)
  from sing show "points (new_traj (shared
            (jogCalcs_cycle ramp jac bounds now (Cartesian cmd) calc sh))) =
          [\<lparr>positions = js_position (jt_state calc),
            velocities = map (\<lambda>_. 0) (js_position (jt_state calc)),
            accelerations = [], time_from_start = publish_period (parameters calc)\<rparr>]"
    by (simp add: cycle_cartesian_halt)
next
  assume "distance \<le> hard_stop_collision_proximity_threshold p"
  then have zero: "collision_velocity_scale (CollisionCheckThread_cycle ramp' p distance sh) = 0"
    by (rule monitor_hard_stop)
  then show "warning (jogCalcs_cycle ramp jac bounds now (Cartesian cmd) calc
                 (CollisionCheckThread_cycle ramp' p distance sh)) = Some True"
    by (simp add: cycle_cartesian_warning)
  from zero show "points (new_traj (shared
            (jogCalcs_cycle ramp jac bounds now (Cartesian cmd) calc
               (CollisionCheckThread_cycle ramp' p distance sh)))) =
          [\<lparr>positions = js_position (jt_state calc),
            velocities = map (\<lambda>_. 0) (js_position (jt_state calc)),
            accelerations = [], time_from_start = publish_period (parameters calc)\<rparr>]"
    by (simp add: cycle_cartesian_halt)
next
  assume free: "hard_stop_singularity_threshold (parameters calc) < smallest_singular_value jac
       \<and> hard_stop_collision_proximity_threshold p < distance
       \<and> (distance < lower_collision_proximity_threshold p \<longrightarrow> 0 < ramp' distance)"
  then have "collision_velocity_scale (CollisionCheckThread_cycle ramp' p distance sh) \<noteq> 0"
    using monitor_no_hard_stop [of p distance ramp' sh] by blast
  with free show "warning (jogCalcs_cycle ramp jac bounds now (Cartesian cmd) calc
                 (CollisionCheckThread_cycle ramp' p distance sh)) = Some False"
    by (simp add: cycle_cartesian_warning)
next
  show "warning (jogCalcs_cycle ramp jac bounds now (Cartesian cmd) calc sh) =
       Some (smallest_singular_value jac \<le> hard_stop_singularity_threshold (parameters calc)
             \<or> collision_velocity_scale sh = 0)"
    by (rule cycle_cartesian_warning)
qed

text \<open>
  The theorem with hard stops at 0.05. A singular value of 0.01 in a stale cycle (five
  seconds, no command): the joints are held and the warning is raised. A distance of
  0.03 in a fresh cycle, away from the singularity: the same. A singular value of 0.07
  and a distance of 0.075, both above 0.05, with an engine whose own ramp is 0
  everywhere: the scale factor is 0, no hard stop holds, and the warning is cleared.
\<close>

theorem C7_hard_stop_halts_and_warns_witness:
  "smallest_singular_value example_jacobian
     \<le> hard_stop_singularity_threshold (parameters example_calcs)
   \<and> 5 - incoming_cmd_stamp jog_arm_shared_init
       > incoming_command_timeout (parameters example_calcs)
   \<and> warning (jogCalcs_cycle example_ramp example_jacobian (\<lambda>_. (- 1, 1)) 5
        (Cartesian example_twist) example_calcs jog_arm_shared_init) = Some True
   \<and> points (new_traj (shared (jogCalcs_cycle example_ramp example_jacobian
        (\<lambda>_. (- 1, 1)) 5 (Cartesian example_twist) example_calcs jog_arm_shared_init))) =
       [\<lparr>positions = [0.5, - 0.25], velocities = [0, 0], accelerations = [],
         time_from_start = 0.01\<rparr>]
   \<and> (0.03::real) \<le> hard_stop_collision_proximity_threshold example_parameters
   \<and> warning (jogCalcs_cycle example_ramp
        (example_jacobian\<lparr>smallest_singular_value := 0.07\<rparr>) (\<lambda>_. (- 1, 1)) 0.5
        (Cartesian example_twist) example_calcs
        (CollisionCheckThread_cycle example_ramp example_parameters 0.03 jog_arm_shared_init))
       = Some True
   \<and> points (new_traj (shared (jogCalcs_cycle example_ramp
        (example_jacobian\<lparr>smallest_singular_value := 0.07\<rparr>) (\<lambda>_. (- 1, 1)) 0.5
        (Cartesian example_twist) example_calcs
        (CollisionCheckThread_cycle example_ramp example_parameters 0.03
           jog_arm_shared_init)))) =
       [\<lparr>positions = [0.5, - 0.25], velocities = [0, 0], accelerations = [],
         time_from_start = 0.01\<rparr>]
   \<and> hard_stop_singularity_threshold (parameters example_calcs)
       < smallest_singular_value (example_jacobian\<lparr>smallest_singular_value := 0.07\<rparr>)
   \<and> hard_stop_collision_proximity_threshold example_parameters < (0.075::real)
   \<and> 0 < example_ramp 0.075
   \<and> ScaleFactor
        (decelerateForSingularity (\<lambda>_. 0) (parameters example_calcs)
           (example_jacobian\<lparr>smallest_singular_value := 0.07\<rparr>))
        (collision_velocity_scale
           (CollisionCheckThread_cycle example_ramp example_parameters 0.075
              jog_arm_shared_init)) = 0
   \<and> warning (jogCalcs_cycle (\<lambda>_. 0)
        (example_jacobian\<lparr>smallest_singular_value := 0.07\<rparr>) (\<lambda>_. (- 1, 1)) 0.5
        (Cartesian example_twist) example_calcs
        (CollisionCheckThread_cycle example_ramp example_parameters 0.075 jog_arm_shared_init))
       = Some False"
proof -
  have sing: "smallest_singular_value example_jacobian
     \<le> hard_stop_singularity_threshold (parameters example_calcs)"
    and stale: "5 - incoming_cmd_stamp jog_arm_shared_init
       > incoming_command_timeout (parameters example_calcs)"
    and coll: "(0.03::real) \<le> hard_stop_collision_proximity_threshold example_parameters"
    and above: "hard_stop_singularity_threshold (parameters example_calcs)
       < smallest_singular_value (example_jacobian\<lparr>smallest_singular_value := 0.07\<rparr>)"
    and clear: "hard_stop_collision_proximity_threshold example_parameters < (0.075::real)"
    and ramp: "0 < example_ramp 0.075"
    by (simp_all add: example_jacobian_def example_calcs_def example_parameters_def
        jog_arm_shared_init_def example_ramp_def)
  have scale: "ScaleFactor
        (decelerateForSingularity (\<lambda>_. 0) (parameters example_calcs)
           (example_jacobian\<lparr>smallest_singular_value := 0.07\<rparr>))
        (collision_velocity_scale
           (CollisionCheckThread_cycle example_ramp example_parameters 0.075
              jog_arm_shared_init)) = 0"
    by (simp add: ScaleFactor_def decelerateForSingularity_def two_threshold_scale_def
        clamp_unit_def example_jacobian_def example_calcs_def example_parameters_def)
  have held: "js_position (jt_state example_calcs) = [0.5, - 0.25]"
    and period: "publish_period (parameters example_calcs) = 0.01"
    by (simp_all add: example_calcs_def example_parameters_def)
  have "warning (jogCalcs_cycle example_ramp example_jacobian (\<lambda>_. (- 1, 1)) 5
        (Cartesian example_twist) example_calcs jog_arm_shared_init) = Some True
      \<and> points (new_traj (shared (jogCalcs_cycle example_ramp example_jacobian
        (\<lambda>_. (- 1, 1)) 5 (Cartesian example_twist) example_calcs jog_arm_shared_init))) =
       [\<lparr>positions = js_position (jt_state example_calcs),
         velocities = map (\<lambda>_. 0) (js_position (jt_state example_calcs)),
         accelerations = [], time_from_start = publish_period (parameters example_calcs)\<rparr>]"
    using sing
      C7_hard_stop_halts_and_warns [where jac = example_jacobian and calc = example_calcs
        and ramp = example_ramp and bounds = "\<lambda>_. (- 1, 1)" and cmd = example_twist
        and now = 5 and sh = jog_arm_shared_init and distance = "0.03"
        and p = example_parameters and ramp' = example_ramp]
    by blast
  moreover have "warning (jogCalcs_cycle example_ramp
        (example_jacobian\<lparr>smallest_singular_value := 0.07\<rparr>) (\<lambda>_. (- 1, 1)) 0.5
        (Cartesian example_twist) example_calcs
        (CollisionCheckThread_cycle example_ramp example_parameters 0.03 jog_arm_shared_init))
       = Some True
      \<and> points (new_traj (shared (jogCalcs_cycle example_ramp
        (example_jacobian\<lparr>smallest_singular_value := 0.07\<rparr>) (\<lambda>_. (- 1, 1)) 0.5
        (Cartesian example_twist) example_calcs
        (CollisionCheckThread_cycle example_ramp example_parameters 0.03
           jog_arm_shared_init)))) =
       [\<lparr>positions = js_position (jt_state example_calcs),
         velocities = map (\<lambda>_. 0) (js_position (jt_state example_calcs)),
         accelerations = [], time_from_start = publish_period (parameters example_calcs)\<rparr>]"
    using coll
      C7_hard_stop_halts_and_warns [where
        jac = "example_jacobian\<lparr>smallest_singular_value := 0.07\<rparr>" and calc = example_calcs
        and ramp = example_ramp and bounds = "\<lambda>_. (- 1, 1)" and cmd = example_twist
        and now = "0.5" and sh = jog_arm_shared_init and distance = "0.03"
        and p = example_parameters and ramp' = example_ramp]
    by blast
  moreover have "warning (jogCalcs_cycle (\<lambda>_. 0)
        (example_jacobian\<lparr>smallest_singular_value := 0.07\<rparr>) (\<lambda>_. (- 1, 1)) 0.5
        (Cartesian example_twist) example_calcs
        (CollisionCheckThread_cycle example_ramp example_parameters 0.075 jog_arm_shared_init))
       = Some False"
    using above clear ramp
      C7_hard_stop_halts_and_warns [where
        jac = "example_jacobian\<lparr>smallest_singular_value := 0.07\<rparr>" and calc = example_calcs
        and ramp = "\<lambda>_. 0" and bounds = "\<lambda>_. (- 1, 1)" and cmd = example_twist
        and now = "0.5" and sh = jog_arm_shared_init and distance = "0.075"
        and p = example_parameters and ramp' = example_ramp]
    by blast
  ultimately show ?thesis
    using sing stale coll above clear ramp scale by (simp add: held period)
qed

subsection \<open>The joint path\<close>

text \<open>
  C8. For every joint command, the cycle of the engine gives the same trajectory, the
  same filter states and the same flags whatever the collision scale factor, the
  Jacobian, its singular value and the direction of the motion: two runs that differ
  only in these agree on everything but the collision scale they were given.
\<close>

theorem C8_joint_path_ignores_scaling:
  "new_traj (shared (jogCalcs_cycle ramp jac bounds now (Joint cmd) calc
               (sh\<lparr>collision_velocity_scale := k\<rparr>))) =
   new_traj (shared (jogCalcs_cycle ramp' jac' bounds now (Joint cmd) calc
               (sh\<lparr>collision_velocity_scale := k'\<rparr>)))
   \<and> calcs (jogCalcs_cycle ramp jac bounds now (Joint cmd) calc
               (sh\<lparr>collision_velocity_scale := k\<rparr>)) =
     calcs (jogCalcs_cycle ramp' jac' bounds now (Joint cmd) calc
               (sh\<lparr>collision_velocity_scale := k'\<rparr>))
   \<and> jogCalcs_cycle ramp jac bounds now (Joint cmd) calc
        (sh\<lparr>collision_velocity_scale := k\<rparr>) =
     (jogCalcs_cycle ramp' jac' bounds now (Joint cmd) calc sh)
       \<lparr>shared := (shared (jogCalcs_cycle ramp' jac' bounds now (Joint cmd) calc sh))
          \<lparr>collision_velocity_scale := k\<rparr>\<rparr>
   \<and> jointJogCalcs bounds cmd calc (sh\<lparr>collision_velocity_scale := k\<rparr>) =
     (jointJogCalcs bounds cmd calc sh)
       \<lparr>shared := (shared (jointJogCalcs bounds cmd calc sh))
          \<lparr>collision_velocity_scale := k\<rparr>\<rparr>"
  by (simp add: jogCalcs_cycle_def jointJogCalcs_def Let_def)

subsection \<open>Joint limits\<close>

lemma clamp_increment_idem: "clamp_increment b (clamp_increment b v) = clamp_increment b v"
  by (simp add: clamp_increment_def max_def min_def)

lemma clamp_from_idem: "clamp_from i bounds (clamp_from i bounds vs) = clamp_from i bounds vs"
  by (induction vs arbitrary: i) (simp_all add: clamp_increment_idem)

text \<open>
  C9. For every vector of joint increments and all bounds, applying the joint-limit clamp
  twice gives what applying it once gives.
\<close>

theorem C9_joint_limit_clamp_idempotent:
  "enforceJointVelocityLimits bounds (enforceJointVelocityLimits bounds v) =
   enforceJointVelocityLimits bounds v"
  by (simp add: enforceJointVelocityLimits_def clamp_from_idem)

section \<open>Properties of the shared variables\<close>

text \<open>
  C10. Before any message arrives the shared state has collision scale 1, both
  zero-command flags set, the stale flag and the publish flag cleared, and the time
  stamp of the incoming command at 0.
\<close>

theorem C10_shared_state_initial_values:
  "collision_velocity_scale jog_arm_shared_init = 1
   \<and> zero_cartesian_cmd_flag jog_arm_shared_init
   \<and> zero_joint_cmd_flag jog_arm_shared_init
   \<and> \<not> command_is_stale jog_arm_shared_init
   \<and> \<not> ok_to_publish jog_arm_shared_init
   \<and> incoming_cmd_stamp jog_arm_shared_init = 0"
  by (simp add: jog_arm_shared_init_def)

end
